theory Spec2Isabelle
  imports Complex_Main
begin

section \<open>Data model of the QAOA optimizer\<close>

text \<open>
  The development follows \<^verbatim>\<open>simple_qaoa_optimizer.py\<close> (class
  \<^verbatim>\<open>SimpleQAOAOptimizer\<close>).  Python floats are modelled as reals: rounding is
  not part of the model.  Variable indices are natural numbers.

  A QUBO matrix is the square array \<^verbatim>\<open>np.zeros((n, n))\<close> after some cell
  assignments: its shape and its cells.  Every read of the model is at an index below
  \<open>dim\<close> or is guarded by a bounds check.
\<close>

datatype error =
    ValueError string
  | IndexError
  | ZeroDivisionError
  | QiskitError string
  | ExternalError string

record matrix =
  dim :: nat
  cell :: "nat \<times> nat \<Rightarrow> real"

definition zeros :: "nat \<Rightarrow> matrix" where
  "zeros n = \<lparr>dim = n, cell = (\<lambda>_. 0)\<rparr>"

definition set_cell :: "matrix \<Rightarrow> nat \<Rightarrow> nat \<Rightarrow> real \<Rightarrow> matrix" where
  "set_cell M i j v = M\<lparr>cell := (cell M)((i, j) := v)\<rparr>"

text \<open>
  \<^verbatim>\<open>SparsePauliOp(pauli_strings, coefficients)\<close>: the labels and the coefficients
  handed to the constructor, which the code reads back with
  \<^verbatim>\<open>zip(hamiltonian.paulis, hamiltonian.coeffs)\<close>.  The constructor belongs to the
  library: on an empty list of labels it raises QiskitError.  The lists the builder
  hands over have the same length, and their labels have the length of the matrix.  The
  coefficients stay the real numbers they are built from.
\<close>

record hamiltonian =
  paulis :: "string list"
  coeffs :: "real list"

definition ham_terms :: "hamiltonian \<Rightarrow> (string \<times> real) list" where
  "ham_terms h = zip (paulis h) (coeffs h)"

definition sparse_pauli_op :: "string list \<Rightarrow> real list \<Rightarrow> error + hamiltonian" where
  "sparse_pauli_op labels cs =
     (if labels = [] then Inl (QiskitError ''Input Pauli list is empty.'')
      else Inr \<lparr>paulis = labels, coeffs = cs\<rparr>)"

text \<open>
  An element of \<^verbatim>\<open>hamiltonian.paulis\<close> is a Pauli object of the library, not a
  string.  Iterating it yields one single-qubit Pauli object for every qubit, qubit
  \<open>q\<close> being the \<open>q\<close>-th character of the label counted from its right end.  The
  library's equality of a Pauli object with an operand that is not a Pauli object is
  False: in the code, \<^verbatim>\<open>p == 'I'\<close> and \<^verbatim>\<open>p_char == 'Z'\<close> compare a Pauli object
  with a Python string.
\<close>

datatype pauli = Pauli string

definition qubit_paulis :: "string \<Rightarrow> pauli list" where
  "qubit_paulis label = map (\<lambda>ch. Pauli [ch]) (rev label)"

definition pauli_eq_str :: "pauli \<Rightarrow> string \<Rightarrow> bool" where
  "pauli_eq_str p s = False"

definition eps :: real where
  "eps = 1 / 10 ^ 10"

section \<open>\<^verbatim>\<open>_qubo_to_hamiltonian\<close>\<close>

text \<open>
  The local variables of the conversion loops; \<^verbatim>\<open>constant\<close> is the field
  \<open>constant_term\<close>.  The threshold \<open>1e-10\<close> is \<open>eps\<close>.
\<close>

record ham_acc =
  pauli_strings :: "string list"
  coefficients :: "real list"
  constant_term :: real

definition z_string :: "nat \<Rightarrow> nat \<Rightarrow> string" where
  "z_string n i = (replicate n (CHR ''I''))[i := CHR ''Z'']"

definition zz_string :: "nat \<Rightarrow> nat \<Rightarrow> nat \<Rightarrow> string" where
  "zz_string n i j = (replicate n (CHR ''I''))[i := CHR ''Z'', j := CHR ''Z'']"

definition i_string :: "nat \<Rightarrow> string" where
  "i_string n = replicate n (CHR ''I'')"

definition append_term :: "string \<Rightarrow> real \<Rightarrow> ham_acc \<Rightarrow> ham_acc" where
  "append_term s c acc =
     acc\<lparr>pauli_strings := pauli_strings acc @ [s], coefficients := coefficients acc @ [c]\<rparr>"

definition add_constant :: "real \<Rightarrow> ham_acc \<Rightarrow> ham_acc" where
  "add_constant c acc = acc\<lparr>constant_term := constant_term acc + c\<rparr>"

definition diag_step :: "matrix \<Rightarrow> nat \<Rightarrow> ham_acc \<Rightarrow> ham_acc" where
  "diag_step Q i acc =
     (let coeff = cell Q (i, i) in
      if \<bar>coeff\<bar> > eps
      then add_constant (coeff / 2) (append_term (z_string (dim Q) i) (coeff / 2) acc)
      else acc)"

definition offdiag_step :: "matrix \<Rightarrow> nat \<Rightarrow> nat \<Rightarrow> ham_acc \<Rightarrow> ham_acc" where
  "offdiag_step Q i j acc =
     (let coeff = cell Q (i, j) in
      if \<bar>coeff\<bar> > eps
      then add_constant (coeff / 4)
            (append_term (z_string (dim Q) j) (coeff / 4)
              (append_term (z_string (dim Q) i) (coeff / 4)
                (append_term (zz_string (dim Q) i j) (coeff / 4) acc)))
      else acc)"

definition conversion_loops :: "matrix \<Rightarrow> ham_acc" where
  "conversion_loops Q =
     fold (\<lambda>i. fold (offdiag_step Q i) [Suc i ..< dim Q]) [0 ..< dim Q]
       (fold (diag_step Q) [0 ..< dim Q]
          \<lparr>pauli_strings = [], coefficients = [], constant_term = 0\<rparr>)"

definition qubo_to_hamiltonian :: "matrix \<Rightarrow> error + hamiltonian" where
  "qubo_to_hamiltonian Q =
     (let acc = conversion_loops Q;
          acc' = (if \<bar>constant_term acc\<bar> > eps
                  then append_term (i_string (dim Q)) (constant_term acc) acc
                  else acc)
      in sparse_pauli_op (pauli_strings acc') (coefficients acc'))"

section \<open>\<^verbatim>\<open>_calculate_objective_value\<close>\<close>

text \<open>
  The solution is a list of Python ints.  The code reads \<^verbatim>\<open>qubo_matrix[i, i]\<close> for
  every \<open>i < len(solution)\<close>: a solution longer than the matrix raises IndexError in the
  first loop, before anything is returned.
\<close>

definition linear_part :: "int list \<Rightarrow> matrix \<Rightarrow> real" where
  "linear_part solution Q =
     fold (\<lambda>i objective. objective + cell Q (i, i) * of_int (solution ! i))
       [0 ..< length solution] 0"

definition quadratic_part :: "int list \<Rightarrow> matrix \<Rightarrow> real \<Rightarrow> real" where
  "quadratic_part solution Q start =
     fold (\<lambda>i. fold (\<lambda>j objective.
              objective + cell Q (i, j) * of_int (solution ! i) * of_int (solution ! j))
            [Suc i ..< length solution])
       [0 ..< length solution] start"

definition calculate_objective_value :: "int list \<Rightarrow> matrix \<Rightarrow> error + real" where
  "calculate_objective_value solution Q =
     (if length solution > dim Q then Inl IndexError
      else Inr (quadratic_part solution Q (linear_part solution Q)))"

section \<open>Energy of a bitstring, as computed inside \<^verbatim>\<open>_create_cost_function\<close>\<close>

text \<open>
  \<^verbatim>\<open>for q, p_char in enumerate(pauli_str): if p_char == 'Z': term_contrib *= 1 - 2 * solution[q]\<close>.
  The loop walks the single-qubit Pauli objects of the term; reading past the end of the
  solution would raise IndexError.
\<close>

fun term_contrib :: "(nat \<times> pauli) list \<Rightarrow> int list \<Rightarrow> real \<Rightarrow> error + real" where
  "term_contrib [] solution t = Inr t"
| "term_contrib ((q, p_char) # rest) solution t =
     (if pauli_eq_str p_char ''Z''
      then (if q < length solution
            then term_contrib rest solution (t * of_int (1 - 2 * solution ! q))
            else Inl IndexError)
      else term_contrib rest solution t)"

fun bitstring_energy :: "(string \<times> real) list \<Rightarrow> int list \<Rightarrow> real \<Rightarrow> error + real" where
  "bitstring_energy [] solution e = Inr e"
| "bitstring_energy ((pauli_str, coeff) # ts) solution e =
     (case term_contrib (enumerate 0 (qubit_paulis pauli_str)) solution coeff of
        Inl err \<Rightarrow> Inl err
      | Inr t \<Rightarrow> bitstring_energy ts solution (e + t))"

definition hamiltonian_energy :: "hamiltonian \<Rightarrow> int list \<Rightarrow> error + real" where
  "hamiltonian_energy h solution = bitstring_energy (ham_terms h) solution 0"

text \<open>
  The energy as the specification words it: the sum, over all terms, of the coefficient
  times the product of \<open>1 - 2 x_q\<close> over the qubits the term touches, the positions \<open>q\<close>
  at which the label the builder wrote carries a Z.
\<close>

fun spec_term_contrib :: "string \<Rightarrow> nat \<Rightarrow> int list \<Rightarrow> real \<Rightarrow> error + real" where
  "spec_term_contrib [] q solution t = Inr t"
| "spec_term_contrib (p # ps) q solution t =
     (if p = CHR ''Z''
      then (if q < length solution
            then spec_term_contrib ps (Suc q) solution (t * of_int (1 - 2 * solution ! q))
            else Inl IndexError)
      else spec_term_contrib ps (Suc q) solution t)"

fun spec_bitstring_energy ::
  "(string \<times> real) list \<Rightarrow> int list \<Rightarrow> real \<Rightarrow> error + real" where
  "spec_bitstring_energy [] solution e = Inr e"
| "spec_bitstring_energy ((s, c) # ts) solution e =
     (case spec_term_contrib s 0 solution c of
        Inl err \<Rightarrow> Inl err
      | Inr t \<Rightarrow> spec_bitstring_energy ts solution (e + t))"

definition spec_energy :: "hamiltonian \<Rightarrow> int list \<Rightarrow> error + real" where
  "spec_energy h solution = spec_bitstring_energy (ham_terms h) solution 0"

section \<open>Declarative reading of the conversion\<close>

text \<open>
  The terms one diagonal entry and one pair contribute, in the order the loops append
  them, and the constant the loops accumulate.  An entry of magnitude at most \<open>eps\<close>
  contributes nothing.
\<close>

definition diag_terms_at :: "matrix \<Rightarrow> nat \<Rightarrow> (string \<times> real) list" where
  "diag_terms_at Q i =
     (if \<bar>cell Q (i, i)\<bar> > eps then [(z_string (dim Q) i, cell Q (i, i) / 2)] else [])"

definition pair_terms_at :: "matrix \<Rightarrow> nat \<Rightarrow> nat \<Rightarrow> (string \<times> real) list" where
  "pair_terms_at Q i j =
     (if \<bar>cell Q (i, j)\<bar> > eps
      then [(zz_string (dim Q) i j, cell Q (i, j) / 4),
            (z_string (dim Q) i, cell Q (i, j) / 4),
            (z_string (dim Q) j, cell Q (i, j) / 4)]
      else [])"

definition diag_terms :: "matrix \<Rightarrow> (string \<times> real) list" where
  "diag_terms Q = concat (map (diag_terms_at Q) [0 ..< dim Q])"

definition offdiag_terms :: "matrix \<Rightarrow> (string \<times> real) list" where
  "offdiag_terms Q =
     concat (map (\<lambda>i. concat (map (pair_terms_at Q i) [Suc i ..< dim Q])) [0 ..< dim Q])"

definition kept :: "real \<Rightarrow> real" where
  "kept c = (if \<bar>c\<bar> > eps then c else 0)"

definition ising_constant :: "matrix \<Rightarrow> real" where
  "ising_constant Q =
     (\<Sum>i \<leftarrow> [0 ..< dim Q]. kept (cell Q (i, i)) / 2)
     + (\<Sum>i \<leftarrow> [0 ..< dim Q]. \<Sum>j \<leftarrow> [Suc i ..< dim Q]. kept (cell Q (i, j)) / 4)"

definition constant_terms :: "matrix \<Rightarrow> (string \<times> real) list" where
  "constant_terms Q =
     (if \<bar>ising_constant Q\<bar> > eps then [(i_string (dim Q), ising_constant Q)] else [])"

definition ising_terms :: "matrix \<Rightarrow> (string \<times> real) list" where
  "ising_terms Q = diag_terms Q @ offdiag_terms Q @ constant_terms Q"

definition acc_terms :: "ham_acc \<Rightarrow> (string \<times> real) list" where
  "acc_terms acc = zip (pauli_strings acc) (coefficients acc)"

definition acc_ok :: "ham_acc \<Rightarrow> bool" where
  "acc_ok acc = (length (pauli_strings acc) = length (coefficients acc))"

section \<open>Circuits\<close>

text \<open>
  A circuit is the sequence of gate calls made on the \<^verbatim>\<open>QuantumCircuit\<close>.  The
  loops over a term walk its single-qubit Pauli objects and compare each with the strings
  \<^verbatim>\<open>'I'\<close> and \<^verbatim>\<open>'Z'\<close>.
\<close>

datatype gate = H nat | RZ real nat | RX real nat | MeasureAll

definition num_qubits :: "hamiltonian \<Rightarrow> nat" where
  "num_qubits h = (case paulis h of [] \<Rightarrow> 0 | p # _ \<Rightarrow> length p)"

definition is_identity :: "string \<Rightarrow> bool" where
  "is_identity pauli_str = list_all (\<lambda>p. pauli_eq_str p ''I'') (qubit_paulis pauli_str)"

text \<open>The \<^verbatim>\<open>qc.rz(2 * gamma * coeff, q)\<close> calls of one term: (angle, qubit) pairs.\<close>

definition z_rotations :: "real \<Rightarrow> string \<Rightarrow> real \<Rightarrow> (real \<times> nat) list" where
  "z_rotations gamma pauli_str coeff =
     concat (map (\<lambda>(q, p). if pauli_eq_str p ''Z'' then [(2 * gamma * coeff, q)] else [])
               (enumerate 0 (qubit_paulis pauli_str)))"

definition cost_rotations :: "hamiltonian \<Rightarrow> real \<Rightarrow> (real \<times> nat) list" where
  "cost_rotations h gamma =
     concat (map (\<lambda>(pauli_str, coeff).
                if is_identity pauli_str then [] else z_rotations gamma pauli_str coeff)
               (ham_terms h))"

definition cost_unitary :: "hamiltonian \<Rightarrow> real \<Rightarrow> gate list" where
  "cost_unitary h gamma = map (\<lambda>(theta, q). RZ theta q) (cost_rotations h gamma)"

definition mixer_unitary :: "hamiltonian \<Rightarrow> real \<Rightarrow> gate list" where
  "mixer_unitary h beta = map (RX (2 * beta)) [0 ..< num_qubits h]"

definition create_qaoa_circuit :: "nat \<Rightarrow> hamiltonian \<Rightarrow> real \<Rightarrow> real \<Rightarrow> gate list" where
  "create_qaoa_circuit reps h gamma beta =
     map H [0 ..< num_qubits h]
     @ concat (replicate reps (cost_unitary h gamma @ mixer_unitary h beta))
     @ [MeasureAll]"

text \<open>
  With parameter arrays, layer \<open>p\<close> reads \<^verbatim>\<open>gammas[p]\<close> only inside the branch
  that applies a rotation, and \<^verbatim>\<open>betas[p]\<close> when there is a qubit; an array read
  past its end raises IndexError.
\<close>

fun layers :: "hamiltonian \<Rightarrow> real list \<Rightarrow> real list \<Rightarrow> nat list \<Rightarrow> error + gate list" where
  "layers h gammas betas [] = Inr []"
| "layers h gammas betas (p # ps) =
     (if cost_rotations h 0 \<noteq> [] \<and> length gammas \<le> p then Inl IndexError
      else if 0 < num_qubits h \<and> length betas \<le> p then Inl IndexError
      else (case layers h gammas betas ps of
              Inl e \<Rightarrow> Inl e
            | Inr rest \<Rightarrow>
                Inr (cost_unitary h (gammas ! p) @ mixer_unitary h (betas ! p) @ rest)))"

definition create_parameterized_circuit ::
  "nat \<Rightarrow> hamiltonian \<Rightarrow> real list \<Rightarrow> real list \<Rightarrow> error + gate list" where
  "create_parameterized_circuit reps h gammas betas =
     (case layers h gammas betas [0 ..< reps] of
        Inl e \<Rightarrow> Inl e
      | Inr ls \<Rightarrow> Inr (map H [0 ..< num_qubits h] @ ls @ [MeasureAll]))"

section \<open>Effect of the cost rotations on the amplitudes\<close>

text \<open>
  The amplitude vector is a function from basis states (bit \<open>q\<close> of the list is the
  value of qubit \<open>q\<close>) to complex numbers.  The gate \<^verbatim>\<open>rz(theta)\<close> of the circuit
  library is the diagonal matrix with entries \<open>exp(-i theta/2)\<close> and \<open>exp(i theta/2)\<close>:
  it multiplies the amplitude of a basis state by \<open>exp(-i (theta/2) z)\<close>, where \<open>z\<close> is
  \<open>+1\<close> when the qubit is 0 and \<open>-1\<close> when it is 1.
\<close>

type_synonym state = "bool list \<Rightarrow> complex"

definition z_eigenvalue :: "bool \<Rightarrow> real" where
  "z_eigenvalue one = (if one then - 1 else 1)"

definition rz_phase :: "real \<Rightarrow> bool \<Rightarrow> complex" where
  "rz_phase theta one = cis (- (theta / 2) * z_eigenvalue one)"

definition apply_rz :: "real \<Rightarrow> nat \<Rightarrow> state \<Rightarrow> state" where
  "apply_rz theta q psi = (\<lambda>b. rz_phase theta (b ! q) * psi b)"

text \<open>
  The cost step of a layer: the rz gates of \<open>cost_unitary\<close>, one for every pair of
  \<open>cost_rotations\<close>, applied in order.
\<close>

definition cost_step :: "hamiltonian \<Rightarrow> real \<Rightarrow> state \<Rightarrow> state" where
  "cost_step h gamma psi = fold (\<lambda>(theta, q). apply_rz theta q) (cost_rotations h gamma) psi"

definition uniform_state :: "nat \<Rightarrow> state" where
  "uniform_state n = (\<lambda>b. complex_of_real (1 / sqrt (2 ^ n)))"

text \<open>
  The cost step as the specification words it.  The eigenvalue of a term on a basis state
  is the product of \<open>z\<close> over the qubits the term touches, the positions at which the
  label the builder wrote carries a Z; every amplitude is multiplied, for every term that
  touches a qubit, by \<open>exp(-i 2 gamma coefficient eigenvalue)\<close>; identity terms are
  skipped.
\<close>

definition term_eigenvalue :: "string \<Rightarrow> bool list \<Rightarrow> real" where
  "term_eigenvalue pauli_str b =
     prod_list (map (\<lambda>(q, p). if p = CHR ''Z'' then z_eigenvalue (b ! q) else 1)
                  (enumerate 0 pauli_str))"

definition spec_cost_step :: "hamiltonian \<Rightarrow> real \<Rightarrow> state \<Rightarrow> state" where
  "spec_cost_step h gamma psi =
     (\<lambda>b. prod_list (map (\<lambda>(pauli_str, coeff).
                       if CHR ''Z'' \<in> set pauli_str
                       then cis (- (2 * gamma * coeff * term_eigenvalue pauli_str b))
                       else 1)
                     (ham_terms h)) * psi b)"

section \<open>Solution extraction\<close>

text \<open>
  A histogram is the \<^verbatim>\<open>counts\<close> dict in its iteration order; its keys are
  distinct.  \<^verbatim>\<open>max(counts, key=counts.get)\<close> walks the keys in that order and
  replaces the candidate only by a strictly larger count; on an empty dict it raises
  ValueError.
\<close>

type_synonym histogram = "(string \<times> nat) list"

fun max_count :: "string \<times> nat \<Rightarrow> histogram \<Rightarrow> string \<times> nat" where
  "max_count best [] = best"
| "max_count best (x # xs) = (if snd best < snd x then max_count x xs else max_count best xs)"

definition best_bitstring :: "histogram \<Rightarrow> error + string \<times> nat" where
  "best_bitstring cs =
     (case cs of
        [] \<Rightarrow> Inl (ValueError ''max() arg is an empty sequence'')
      | x # xs \<Rightarrow> Inr (max_count x xs))"

text \<open>\<^verbatim>\<open>int(bit)\<close> for one character: a decimal digit, or ValueError.\<close>

definition int_of_bit :: "char \<Rightarrow> error + int" where
  "int_of_bit ch =
     (if ch \<in> set ''0123456789'' then Inr (int (of_char ch) - 48)
      else Inl (ValueError ''invalid literal for int() with base 10''))"

fun ints_of_bits :: "string \<Rightarrow> error + int list" where
  "ints_of_bits [] = Inr []"
| "ints_of_bits (ch # rest) =
     (case int_of_bit ch of
        Inl e \<Rightarrow> Inl e
      | Inr v \<Rightarrow> (case ints_of_bits rest of Inl e \<Rightarrow> Inl e | Inr vs \<Rightarrow> Inr (v # vs)))"

definition solution_of_bitstring :: "string \<Rightarrow> error + int list" where
  "solution_of_bitstring bitstring = ints_of_bits (rev bitstring)"

record result =
  solution :: "int list"
  objective_value :: real
  probability :: real
  counts :: histogram
  success :: bool

definition extract_solution :: "nat \<Rightarrow> histogram \<Rightarrow> matrix \<Rightarrow> error + result" where
  "extract_solution n_shots cs Q =
     (case best_bitstring cs of
        Inl e \<Rightarrow> Inl e
      | Inr (bitstring, cnt) \<Rightarrow>
          (case solution_of_bitstring bitstring of
             Inl e \<Rightarrow> Inl e
           | Inr best_solution \<Rightarrow>
               if n_shots = 0 then Inl ZeroDivisionError
               else (case calculate_objective_value best_solution Q of
                       Inl e \<Rightarrow> Inl e
                     | Inr obj \<Rightarrow>
                         Inr \<lparr>solution = best_solution, objective_value = obj,
                              probability = real cnt / real n_shots,
                              counts = cs, success = True\<rparr>)))"

text \<open>
  The selection the specification words: highest count, ties broken by the lowest
  bitstring in lexicographic order of the characters.
\<close>

fun str_less :: "string \<Rightarrow> string \<Rightarrow> bool" where
  "str_less [] [] = False"
| "str_less [] (y # ys) = True"
| "str_less (x # xs) [] = False"
| "str_less (x # xs) (y # ys) =
     ((of_char x :: nat) < of_char y \<or> (x = y \<and> str_less xs ys))"

fun spec_max_count :: "string \<times> nat \<Rightarrow> histogram \<Rightarrow> string \<times> nat" where
  "spec_max_count best [] = best"
| "spec_max_count best (x # xs) =
     (if snd best < snd x \<or> (snd best = snd x \<and> str_less (fst x) (fst best))
      then spec_max_count x xs else spec_max_count best xs)"

definition spec_best_bitstring :: "histogram \<Rightarrow> error + string \<times> nat" where
  "spec_best_bitstring cs =
     (case cs of
        [] \<Rightarrow> Inl (ValueError ''max() arg is an empty sequence'')
      | x # xs \<Rightarrow> Inr (spec_max_count x xs))"

section \<open>The solve pipeline\<close>

text \<open>
  The optimizer object: \<^verbatim>\<open>self.reps\<close>, \<^verbatim>\<open>self.shots\<close>, \<^verbatim>\<open>self.backend\<close>.
  What the code calls outside this repository is a parameter of the model: the Aer
  simulator (\<^verbatim>\<open>run(circuit, shots)\<close> followed by \<^verbatim>\<open>get_counts()\<close>), the lookup
  of a named hardware backend, and \<^verbatim>\<open>optimizer.minimize\<close>, which reports the
  points at which it evaluated the cost function and either fails or returns
  \<^verbatim>\<open>result.x\<close> and \<^verbatim>\<open>result.fun\<close>.  For \<^verbatim>\<open>QAOAPortfolioOptimizer\<close> the library
  ansatz (built, bound and run) and the classical eigensolver are parameters too.
  Every function that executes circuits returns the list of circuits it has executed,
  in order, beside its result.
\<close>

record config =
  reps :: nat
  shots :: nat
  backend :: "string option"

type_synonym runner = "gate list \<Rightarrow> nat \<Rightarrow> error + histogram"

record quadratic_program =
  num_vars :: nat
  linear :: "(nat \<times> real) list"
  quadratic :: "((nat \<times> nat) \<times> real) list"

record environment =
  aer_run :: runner
  hardware_backend :: "string \<Rightarrow> error + runner"
  minimize :: "string \<Rightarrow> (real list \<Rightarrow> error + real) \<Rightarrow> real list
                 \<Rightarrow> real list list \<times> (error + real list \<times> real)"
  ansatz_run :: "hamiltonian \<Rightarrow> nat \<Rightarrow> real list \<Rightarrow> nat \<Rightarrow> error + histogram"
  classical_solve :: "quadratic_program \<Rightarrow> error + real list \<times> real"

fun weighted_energy :: "hamiltonian \<Rightarrow> nat \<Rightarrow> histogram \<Rightarrow> real \<Rightarrow> error + real" where
  "weighted_energy h total_shots [] energy = Inr energy"
| "weighted_energy h total_shots ((bitstring, cnt) # rest) energy =
     (case solution_of_bitstring bitstring of
        Inl e \<Rightarrow> Inl e
      | Inr sol \<Rightarrow>
          (case hamiltonian_energy h sol of
             Inl e \<Rightarrow> Inl e
           | Inr be \<Rightarrow>
               if total_shots = 0 then Inl ZeroDivisionError
               else weighted_energy h total_shots rest
                      (energy + be * real cnt / real total_shots)))"

definition cost_circuit :: "config \<Rightarrow> hamiltonian \<Rightarrow> real list \<Rightarrow> error + gate list" where
  "cost_circuit cfg h params =
     (if length params \<noteq> 2 * reps cfg
      then Inl (ValueError ''cannot reshape array'')
      else create_parameterized_circuit (reps cfg) h
             (take (reps cfg) params) (drop (reps cfg) params))"

definition cost_function :: "config \<Rightarrow> environment \<Rightarrow> hamiltonian \<Rightarrow> real list \<Rightarrow> error + real" where
  "cost_function cfg env h params =
     (case cost_circuit cfg h params of
        Inl e \<Rightarrow> Inl e
      | Inr qc \<Rightarrow>
          (case aer_run env qc (shots cfg) of
             Inl e \<Rightarrow> Inl e
           | Inr cs \<Rightarrow> weighted_energy h (sum_list (map snd cs)) cs 0))"

definition initial_point :: "nat \<Rightarrow> real list" where
  "initial_point r = replicate r (8 / 10) @ replicate r (4 / 10)"

definition executed_by_search :: "config \<Rightarrow> hamiltonian \<Rightarrow> real list list \<Rightarrow> gate list list" where
  "executed_by_search cfg h points =
     concat (map (\<lambda>params. case cost_circuit cfg h params of Inl e \<Rightarrow> [] | Inr qc \<Rightarrow> [qc])
               points)"

definition optimize_parameters ::
  "config \<Rightarrow> environment \<Rightarrow> hamiltonian \<Rightarrow> nat \<Rightarrow> string
     \<Rightarrow> gate list list \<times> (error + real list \<times> real list \<times> real)" where
  "optimize_parameters cfg env h r optimizer_name =
     (if optimizer_name = ''COBYLA'' \<or> optimizer_name = ''SPSA''
      then (case minimize env optimizer_name (cost_function cfg env h) (initial_point r) of
              (points, outcome) \<Rightarrow>
                (executed_by_search cfg h points,
                 case outcome of
                   Inl e \<Rightarrow> Inl e
                 | Inr (x, final_cost) \<Rightarrow> Inr (take r x, drop r x, final_cost)))
      else ([], Inl (ValueError (''Unsupported optimizer: '' @ optimizer_name))))"

definition execute ::
  "config \<Rightarrow> runner \<Rightarrow> matrix \<Rightarrow> gate list list \<Rightarrow> gate list
     \<Rightarrow> gate list list \<times> (error + result)" where
  "execute cfg run Q executed qc =
     (executed @ [qc],
      case run qc (shots cfg) of
        Inl e \<Rightarrow> Inl e
      | Inr cs \<Rightarrow> extract_solution (shots cfg) cs Q)"

text \<open>
  The part \<^verbatim>\<open>solve\<close> and \<^verbatim>\<open>solve_problem\<close> share, from the Hamiltonian on.  The
  \<^verbatim>\<open>except Exception\<close> clause logs and re-raises: an error is returned as it is.
\<close>

definition run_qaoa ::
  "config \<Rightarrow> environment \<Rightarrow> runner \<Rightarrow> matrix \<Rightarrow> string \<Rightarrow> bool
     \<Rightarrow> gate list list \<times> (error + result)" where
  "run_qaoa cfg env run Q optimizer_name use_variational =
     (case qubo_to_hamiltonian Q of
        Inl e \<Rightarrow> ([], Inl e)
      | Inr h \<Rightarrow>
          if use_variational
          then (case optimize_parameters cfg env h (reps cfg) optimizer_name of
                  (executed, Inl e) \<Rightarrow> (executed, Inl e)
                | (executed, Inr (gammas, betas, final_cost)) \<Rightarrow>
                    (case create_parameterized_circuit (reps cfg) h gammas betas of
                       Inl e \<Rightarrow> (executed, Inl e)
                     | Inr qc \<Rightarrow> execute cfg run Q executed qc))
          else execute cfg run Q [] (create_qaoa_circuit (reps cfg) h (8 / 10) (4 / 10)))"

subsection \<open>\<^verbatim>\<open>solve_problem\<close>: from a sparse dict\<close>

text \<open>
  The dict is the list of its items in iteration order; its keys are distinct pairs of
  variable indices.
\<close>

type_synonym qubo_dict = "((nat \<times> nat) \<times> real) list"

definition all_indices :: "qubo_dict \<Rightarrow> nat set" where
  "all_indices d = set (concat (map (\<lambda>((i, j), coeff). [i, j]) d))"

definition n_vars_of :: "qubo_dict \<Rightarrow> error + nat" where
  "n_vars_of d =
     (if d = [] then Inl (ValueError ''max() arg is an empty sequence'')
      else Inr (Max (all_indices d) + 1))"

definition assign_item :: "(nat \<times> nat) \<times> real \<Rightarrow> matrix \<Rightarrow> matrix" where
  "assign_item item M =
     (case item of ((i, j), coeff) \<Rightarrow>
        (let M' = set_cell M i j coeff in if i \<noteq> j then set_cell M' j i coeff else M'))"

definition matrix_of_dict :: "qubo_dict \<Rightarrow> nat \<Rightarrow> matrix" where
  "matrix_of_dict d n = fold assign_item d (zeros n)"

definition select_backend :: "config \<Rightarrow> environment \<Rightarrow> runner" where
  "select_backend cfg env =
     (case backend cfg of
        None \<Rightarrow> aer_run env
      | Some name \<Rightarrow>
          if name = [] then aer_run env
          else (case hardware_backend env name of
                  Inl e \<Rightarrow> aer_run env
                | Inr run \<Rightarrow> run))"

definition solve_problem ::
  "config \<Rightarrow> environment \<Rightarrow> qubo_dict \<Rightarrow> string \<Rightarrow> bool
     \<Rightarrow> gate list list \<times> (error + result)" where
  "solve_problem cfg env d optimizer_name use_variational =
     (case n_vars_of d of
        Inl e \<Rightarrow> ([], Inl e)
      | Inr n \<Rightarrow>
          run_qaoa cfg env (select_backend cfg env) (matrix_of_dict d n)
            optimizer_name use_variational)"

subsection \<open>\<^verbatim>\<open>solve\<close>: from a quadratic program\<close>

text \<open>
  \<^verbatim>\<open>objective.linear.to_dict()\<close> and \<^verbatim>\<open>objective.quadratic.to_dict()\<close> as item
  lists.  An index outside the matrix raises IndexError.  \<^verbatim>\<open>solve\<close> always runs on
  the Aer simulator; its result dict names the solution \<^verbatim>\<open>x\<close> and the objective
  value \<^verbatim>\<open>fval\<close>.
\<close>

definition assign_checked :: "matrix \<Rightarrow> nat \<Rightarrow> nat \<Rightarrow> real \<Rightarrow> error + matrix" where
  "assign_checked M i j v =
     (if i < dim M \<and> j < dim M then Inr (set_cell M i j v) else Inl IndexError)"

fun fill_linear :: "(nat \<times> real) list \<Rightarrow> matrix \<Rightarrow> error + matrix" where
  "fill_linear [] M = Inr M"
| "fill_linear ((i, coeff) # rest) M =
     (case assign_checked M i i coeff of
        Inl e \<Rightarrow> Inl e
      | Inr M' \<Rightarrow> fill_linear rest M')"

fun fill_quadratic :: "((nat \<times> nat) \<times> real) list \<Rightarrow> matrix \<Rightarrow> error + matrix" where
  "fill_quadratic [] M = Inr M"
| "fill_quadratic (((i, j), coeff) # rest) M =
     (case assign_checked M i j coeff of
        Inl e \<Rightarrow> Inl e
      | Inr M' \<Rightarrow>
          (case assign_checked M' j i coeff of
             Inl e \<Rightarrow> Inl e
           | Inr M'' \<Rightarrow> fill_quadratic rest M''))"

definition matrix_of_program :: "quadratic_program \<Rightarrow> error + matrix" where
  "matrix_of_program qp =
     (case fill_linear (linear qp) (zeros (num_vars qp)) of
        Inl e \<Rightarrow> Inl e
      | Inr M \<Rightarrow> fill_quadratic (quadratic qp) M)"

definition solve ::
  "config \<Rightarrow> environment \<Rightarrow> quadratic_program \<Rightarrow> string \<Rightarrow> bool
     \<Rightarrow> gate list list \<times> (error + result)" where
  "solve cfg env qp optimizer_name use_variational =
     (case matrix_of_program qp of
        Inl e \<Rightarrow> ([], Inl e)
      | Inr Q \<Rightarrow> run_qaoa cfg env (aer_run env) Q optimizer_name use_variational)"

subsection \<open>\<^verbatim>\<open>QAOAPortfolioOptimizer.solve\<close>\<close>

text \<open>
  \<^verbatim>\<open>_qubo_to_ising\<close> of that class is, statement by statement,
  \<^verbatim>\<open>_qubo_to_hamiltonian\<close>.  The \<^verbatim>\<open>try\<close> block builds the library ansatz, binds
  the initial parameters, runs it and extracts the best bitstring; the \<^verbatim>\<open>except\<close>
  clause hands the program to the library's classical eigensolver and returns its
  result, or re-raises its error.
\<close>

datatype portfolio_result =
    QuantumResult "int list" real histogram bool
  | ClassicalResult "real list" real

definition initial_params :: "nat \<Rightarrow> real list" where
  "initial_params r = map (\<lambda>i. if even i then 0 else pi / 2) [0 ..< 2 * r]"

definition portfolio_quantum ::
  "config \<Rightarrow> environment \<Rightarrow> quadratic_program \<Rightarrow> error + portfolio_result" where
  "portfolio_quantum cfg env qp =
     (case matrix_of_program qp of
        Inl e \<Rightarrow> Inl e
      | Inr Q \<Rightarrow>
          (case qubo_to_hamiltonian Q of
             Inl e \<Rightarrow> Inl e
           | Inr h \<Rightarrow>
               (case ansatz_run env h (reps cfg) (initial_params (reps cfg)) (shots cfg) of
                  Inl e \<Rightarrow> Inl e
                | Inr cs \<Rightarrow>
                    (case best_bitstring cs of
                       Inl e \<Rightarrow> Inl e
                     | Inr (bitstring, cnt) \<Rightarrow>
                         (case solution_of_bitstring bitstring of
                            Inl e \<Rightarrow> Inl e
                          | Inr best_solution \<Rightarrow>
                              (case calculate_objective_value best_solution Q of
                                 Inl e \<Rightarrow> Inl e
                               | Inr obj \<Rightarrow>
                                   Inr (QuantumResult best_solution obj cs True)))))))"

definition portfolio_solve ::
  "config \<Rightarrow> environment \<Rightarrow> quadratic_program \<Rightarrow> error + portfolio_result" where
  "portfolio_solve cfg env qp =
     (case portfolio_quantum cfg env qp of
        Inr r \<Rightarrow> Inr r
      | Inl e \<Rightarrow>
          (case classical_solve env qp of
             Inl e' \<Rightarrow> Inl e'
           | Inr (x, fval) \<Rightarrow> Inr (ClassicalResult x fval)))"

section \<open>Concrete inputs\<close>

text \<open>A one-variable QUBO whose only entry, \<open>1.5e-10\<close>, is just above the threshold.\<close>

definition tiny_qubo :: matrix where
  "tiny_qubo = matrix_of_dict [((0, 0), 3 / (2 * 10 ^ 10))] 1"

definition tiny_hamiltonian :: hamiltonian where
  "tiny_hamiltonian = \<lparr>paulis = [''Z''], coeffs = [3 / (4 * 10 ^ 10)]\<rparr>"

text \<open>The one-variable QUBO \<open>Q = [[1]]\<close> and its Hamiltonian \<open>0.5 Z + 0.5 I\<close>.\<close>

definition one_qubo :: matrix where
  "one_qubo = matrix_of_dict [((0, 0), 1)] 1"

definition one_hamiltonian :: hamiltonian where
  "one_hamiltonian = \<lparr>paulis = [''Z'', ''I''], coeffs = [1 / 2, 1 / 2]\<rparr>"

text \<open>Two variables, both diagonal entries and the pair present, and the Hamiltonian.\<close>

definition pair_qubo :: matrix where
  "pair_qubo = matrix_of_dict [((0, 0), 1), ((1, 1), 1), ((0, 1), 1)] 2"

definition pair_hamiltonian :: hamiltonian where
  "pair_hamiltonian =
     \<lparr>paulis = [''ZI'', ''IZ'', ''ZZ'', ''ZI'', ''IZ'', ''II''],
      coeffs = [1 / 2, 1 / 2, 1 / 4, 1 / 4, 1 / 4, 5 / 4]\<rparr>"

text \<open>
  The scenario of the specification and of \<^verbatim>\<open>test_simple_qaoa.py\<close>: minimise
  \<open>-x0 - x1 - 2 x2 + 2 x0 x1 + x0 x2\<close>.
\<close>

definition scenario_dict :: qubo_dict where
  "scenario_dict = [((0, 0), - 1), ((1, 1), - 1), ((2, 2), - 2), ((0, 1), 2), ((0, 2), 1)]"

definition scenario_qubo :: matrix where
  "scenario_qubo = matrix_of_dict scenario_dict 3"

text \<open>A histogram with a tie, the larger bitstring first in iteration order.\<close>

definition tie_histogram :: histogram where
  "tie_histogram = [(''1'', 5), (''0'', 5)]"

text \<open>
  The default optimizer object; an environment in which every external call fails; and
  one in which the simulator fails while the optimizer returns the point \<open>[0.8, 0.4]\<close>
  without an evaluation.
\<close>

definition default_config :: config where
  "default_config = \<lparr>reps = 1, shots = 1024, backend = None\<rparr>"

definition failing_env :: environment where
  "failing_env =
     \<lparr>aer_run = (\<lambda>qc n. Inl (ExternalError ''simulator failure'')),
      hardware_backend = (\<lambda>name. Inl (ExternalError ''backend not found'')),
      minimize = (\<lambda>name f x0. ([], Inl (ExternalError ''optimizer failure''))),
      ansatz_run = (\<lambda>h r params n. Inl (ExternalError ''simulator failure'')),
      classical_solve = (\<lambda>qp. Inl (ExternalError ''eigensolver failure''))\<rparr>"

definition stalled_env :: environment where
  "stalled_env =
     \<lparr>aer_run = (\<lambda>qc n. Inl (ExternalError ''simulator failure'')),
      hardware_backend = (\<lambda>name. Inl (ExternalError ''backend not found'')),
      minimize = (\<lambda>name f x0. ([], Inr ([4 / 5, 2 / 5], 0))),
      ansatz_run = (\<lambda>h r params n. Inl (ExternalError ''simulator failure'')),
      classical_solve = (\<lambda>qp. Inl (ExternalError ''eigensolver failure''))\<rparr>"

text \<open>
  Quadratic programs of \<open>n\<close> variables: with a zero objective, and with the objective
  \<open>x0\<close>.
\<close>

definition empty_program :: "nat \<Rightarrow> quadratic_program" where
  "empty_program n = \<lparr>num_vars = n, linear = [], quadratic = []\<rparr>"

definition unit_program :: "nat \<Rightarrow> quadratic_program" where
  "unit_program n = \<lparr>num_vars = n, linear = [(0, 1)], quadratic = []\<rparr>"

text \<open>The bit assignment a string of \<open>0\<close> and \<open>1\<close> characters denotes.\<close>

definition bit_values :: "string \<Rightarrow> int list" where
  "bit_values s = map (\<lambda>ch. if ch = CHR ''1'' then 1 else 0) s"

text \<open>The dict \<open>{(0,0): 0}\<close>: one variable, no retained term.\<close>

definition zero_dict :: qubo_dict where
  "zero_dict = [((0, 0), 0)]"

text \<open>The circuit of one layer on one qubit at the fixed parameters: no rz gate.\<close>

definition bare_circuit :: "gate list" where
  "bare_circuit = [H 0, RX (4 / 5) 0, MeasureAll]"

text \<open>A dict without one of its keys, and a dict holding a pair and its mirror image.\<close>

definition without_key :: "nat \<times> nat \<Rightarrow> qubo_dict \<Rightarrow> qubo_dict" where
  "without_key k d = filter (\<lambda>item. fst item \<noteq> k) d"

definition mirrored_dict :: qubo_dict where
  "mirrored_dict = [((0, 0), 1), ((0, 1), 2), ((1, 0), 2)]"

text \<open>\<open>Q = [[2]]\<close> and its Hamiltonian \<open>Z + I\<close>.\<close>

definition z_qubo :: matrix where
  "z_qubo = matrix_of_dict [((0, 0), 2)] 1"

definition z_hamiltonian :: hamiltonian where
  "z_hamiltonian = \<lparr>paulis = [''Z'', ''I''], coeffs = [1, 1]\<rparr>"

section \<open>The conversion loops and their declarative reading\<close>

lemma acc_terms_append_term:
  "acc_ok acc \<Longrightarrow> acc_terms (append_term s c acc) = acc_terms acc @ [(s, c)]"
  by (simp add: acc_terms_def acc_ok_def append_term_def)

lemma acc_ok_append_term: "acc_ok acc \<Longrightarrow> acc_ok (append_term s c acc)"
  by (simp add: acc_ok_def append_term_def)

lemma acc_add_constant:
  "acc_terms (add_constant c acc) = acc_terms acc"
  "acc_ok (add_constant c acc) = acc_ok acc"
  "constant_term (add_constant c acc) = constant_term acc + c"
  by (simp_all add: acc_terms_def acc_ok_def add_constant_def)

lemma constant_append_term: "constant_term (append_term s c acc) = constant_term acc"
  by (simp add: append_term_def)

lemma diag_step_effect:
  assumes "acc_ok acc"
  shows "acc_ok (diag_step Q i acc)"
    and "acc_terms (diag_step Q i acc) = acc_terms acc @ diag_terms_at Q i"
    and "constant_term (diag_step Q i acc) = constant_term acc + kept (cell Q (i, i)) / 2"
  using assms
  by (simp_all add: diag_step_def diag_terms_at_def kept_def Let_def acc_add_constant
      acc_terms_append_term acc_ok_append_term constant_append_term)

lemma offdiag_step_effect:
  assumes "acc_ok acc"
  shows "acc_ok (offdiag_step Q i j acc)"
    and "acc_terms (offdiag_step Q i j acc) = acc_terms acc @ pair_terms_at Q i j"
    and "constant_term (offdiag_step Q i j acc) = constant_term acc + kept (cell Q (i, j)) / 4"
  using assms
  by (simp_all add: offdiag_step_def pair_terms_at_def kept_def Let_def acc_add_constant
      acc_terms_append_term acc_ok_append_term constant_append_term)

lemma fold_diag_step:
  "acc_ok acc \<Longrightarrow>
     acc_ok (fold (diag_step Q) xs acc)
     \<and> acc_terms (fold (diag_step Q) xs acc) = acc_terms acc @ concat (map (diag_terms_at Q) xs)
     \<and> constant_term (fold (diag_step Q) xs acc)
         = constant_term acc + (\<Sum>i \<leftarrow> xs. kept (cell Q (i, i)) / 2)"
proof (induction xs arbitrary: acc)
  case Nil
  then show ?case by simp
next
  case (Cons x xs)
  from Cons.IH [OF diag_step_effect(1) [OF Cons.prems]]
  show ?case by (simp add: diag_step_effect [OF Cons.prems] add.assoc)
qed

lemma fold_offdiag_step:
  "acc_ok acc \<Longrightarrow>
     acc_ok (fold (offdiag_step Q i) xs acc)
     \<and> acc_terms (fold (offdiag_step Q i) xs acc)
         = acc_terms acc @ concat (map (pair_terms_at Q i) xs)
     \<and> constant_term (fold (offdiag_step Q i) xs acc)
         = constant_term acc + (\<Sum>j \<leftarrow> xs. kept (cell Q (i, j)) / 4)"
proof (induction xs arbitrary: acc)
  case Nil
  then show ?case by simp
next
  case (Cons x xs)
  from Cons.IH [OF offdiag_step_effect(1) [OF Cons.prems]]
  show ?case by (simp add: offdiag_step_effect [OF Cons.prems] add.assoc)
qed

lemma fold_offdiag_rows:
  "acc_ok acc \<Longrightarrow>
     acc_ok (fold (\<lambda>i. fold (offdiag_step Q i) (f i)) xs acc)
     \<and> acc_terms (fold (\<lambda>i. fold (offdiag_step Q i) (f i)) xs acc)
         = acc_terms acc @ concat (map (\<lambda>i. concat (map (pair_terms_at Q i) (f i))) xs)
     \<and> constant_term (fold (\<lambda>i. fold (offdiag_step Q i) (f i)) xs acc)
         = constant_term acc + (\<Sum>i \<leftarrow> xs. \<Sum>j \<leftarrow> f i. kept (cell Q (i, j)) / 4)"
proof (induction xs arbitrary: acc)
  case Nil
  then show ?case by simp
next
  case (Cons x xs)
  note row = fold_offdiag_step [OF Cons.prems, of Q x "f x"]
  from Cons.IH [of "fold (offdiag_step Q x) (f x) acc"] row
  show ?case by (simp add: add.assoc)
qed

lemma conversion_loops_effect:
  "acc_ok (conversion_loops Q)"
  "acc_terms (conversion_loops Q) = diag_terms Q @ offdiag_terms Q"
  "constant_term (conversion_loops Q) = ising_constant Q"
proof -
  let ?a0 = "\<lparr>pauli_strings = [], coefficients = [], constant_term = 0\<rparr>"
  have ok0: "acc_ok ?a0" by (simp add: acc_ok_def)
  note d = fold_diag_step [OF ok0, of Q "[0 ..< dim Q]"]
  note r = fold_offdiag_rows [of "fold (diag_step Q) [0 ..< dim Q] ?a0" Q
      "\<lambda>i. [Suc i ..< dim Q]" "[0 ..< dim Q]"]
  from d r show "acc_ok (conversion_loops Q)"
    by (simp add: conversion_loops_def)
  from d r show "acc_terms (conversion_loops Q) = diag_terms Q @ offdiag_terms Q"
    by (simp add: conversion_loops_def diag_terms_def offdiag_terms_def acc_terms_def)
  from d r show "constant_term (conversion_loops Q) = ising_constant Q"
    by (simp add: conversion_loops_def ising_constant_def)
qed

lemma acc_lists:
  assumes "acc_ok acc"
  shows "pauli_strings acc = map fst (acc_terms acc)"
    and "coefficients acc = map snd (acc_terms acc)"
  using assms by (simp_all add: acc_ok_def acc_terms_def)

lemma qubo_to_hamiltonian_eq:
  "qubo_to_hamiltonian Q
     = sparse_pauli_op (map fst (ising_terms Q)) (map snd (ising_terms Q))"
proof -
  note loops = conversion_loops_effect [of Q]
  show ?thesis
  proof (cases "\<bar>ising_constant Q\<bar> > eps")
    case True
    let ?acc = "append_term (i_string (dim Q)) (ising_constant Q) (conversion_loops Q)"
    have ok: "acc_ok ?acc" using loops(1) by (rule acc_ok_append_term)
    have "acc_terms ?acc = ising_terms Q"
      using True loops(2) acc_terms_append_term [OF loops(1)]
      by (simp add: ising_terms_def constant_terms_def)
    with acc_lists [OF ok] True loops(3) show ?thesis
      by (simp add: qubo_to_hamiltonian_def Let_def)
  next
    case False
    then have "acc_terms (conversion_loops Q) = ising_terms Q"
      using loops(2) by (simp add: ising_terms_def constant_terms_def)
    with acc_lists [OF loops(1)] False loops(3) show ?thesis
      by (simp add: qubo_to_hamiltonian_def Let_def)
  qed
qed

lemma qubo_to_hamiltonian_empty:
  "ising_terms Q = [] \<Longrightarrow>
     qubo_to_hamiltonian Q = Inl (QiskitError ''Input Pauli list is empty.'')"
  by (simp add: qubo_to_hamiltonian_eq sparse_pauli_op_def)

lemma qubo_to_hamiltonian_nonempty:
  "ising_terms Q \<noteq> [] \<Longrightarrow>
     qubo_to_hamiltonian Q
       = Inr \<lparr>paulis = map fst (ising_terms Q), coeffs = map snd (ising_terms Q)\<rparr>"
  by (simp add: qubo_to_hamiltonian_eq sparse_pauli_op_def)

lemma ham_terms_conversion:
  assumes "qubo_to_hamiltonian Q = Inr h"
  shows "ham_terms h = ising_terms Q"
proof (cases "ising_terms Q = []")
  case True
  with assms show ?thesis by (simp add: qubo_to_hamiltonian_empty)
next
  case False
  with assms have "h = \<lparr>paulis = map fst (ising_terms Q), coeffs = map snd (ising_terms Q)\<rparr>"
    by (simp add: qubo_to_hamiltonian_nonempty)
  then show ?thesis by (simp add: ham_terms_def zip_map_fst_snd)
qed

lemma pair_terms_at_coeff:
  assumes "(s, c) \<in> set (pair_terms_at Q i j)"
  shows "eps / 4 < \<bar>c\<bar>
    \<and> (s = zz_string (dim Q) i j \<or> s = z_string (dim Q) i \<or> s = z_string (dim Q) j)"
proof (cases "\<bar>cell Q (i, j)\<bar> > eps")
  case True
  with assms have "c = cell Q (i, j) / 4"
    and "s = zz_string (dim Q) i j \<or> s = z_string (dim Q) i \<or> s = z_string (dim Q) j"
    by (auto simp: pair_terms_at_def)
  with True show ?thesis by simp
next
  case False
  with assms show ?thesis by (simp add: pair_terms_at_def)
qed

lemma diag_terms_coeff:
  assumes "(s, c) \<in> set (diag_terms Q)"
  shows "\<exists>i < dim Q. s = z_string (dim Q) i \<and> eps / 2 < \<bar>c\<bar>"
proof -
  from assms obtain i where i: "i < dim Q" and mem: "(s, c) \<in> set (diag_terms_at Q i)"
    by (auto simp: diag_terms_def)
  have "s = z_string (dim Q) i \<and> eps / 2 < \<bar>c\<bar>"
  proof (cases "\<bar>cell Q (i, i)\<bar> > eps")
    case True
    with mem have "s = z_string (dim Q) i" and "c = cell Q (i, i) / 2"
      by (simp_all add: diag_terms_at_def)
    with True show ?thesis by simp
  next
    case False
    with mem show ?thesis by (simp add: diag_terms_at_def)
  qed
  with i show ?thesis by blast
qed

lemma offdiag_terms_coeff:
  assumes "(s, c) \<in> set (offdiag_terms Q)"
  shows "\<exists>i j. i < j \<and> j < dim Q \<and> eps / 4 < \<bar>c\<bar>
       \<and> (s = zz_string (dim Q) i j \<or> s = z_string (dim Q) i \<or> s = z_string (dim Q) j)"
proof -
  from assms obtain i j where ij: "i < j" "j < dim Q"
    and mem: "(s, c) \<in> set (pair_terms_at Q i j)"
    by (auto simp: offdiag_terms_def Suc_le_eq)
  from pair_terms_at_coeff [OF mem] ij show ?thesis by blast
qed

lemma constant_terms_coeff:
  assumes "(s, c) \<in> set (constant_terms Q)"
  shows "s = i_string (dim Q) \<and> eps < \<bar>c\<bar>"
  using assms
  by (cases "\<bar>ising_constant Q\<bar> > eps") (simp_all add: constant_terms_def)

lemma z_string_nth: "i < n \<Longrightarrow> z_string n i ! i = CHR ''Z''"
  by (simp add: z_string_def)

lemma zz_string_nth: "j < n \<Longrightarrow> zz_string n i j ! j = CHR ''Z''"
  by (simp add: zz_string_def)

lemma i_string_nth: "q < n \<Longrightarrow> i_string n ! q = CHR ''I''"
  by (simp add: i_string_def)

lemma z_string_not_identity: "i < n \<Longrightarrow> z_string n i \<noteq> i_string n"
proof
  assume lt: "i < n" and eq: "z_string n i = i_string n"
  have "z_string n i ! i \<noteq> i_string n ! i"
    by (simp add: z_string_nth [OF lt] i_string_nth [OF lt])
  with eq show False by (simp only:) simp
qed

lemma zz_string_not_identity: "j < n \<Longrightarrow> zz_string n i j \<noteq> i_string n"
proof
  assume lt: "j < n" and eq: "zz_string n i j = i_string n"
  have "zz_string n i j ! j \<noteq> i_string n ! j"
    by (simp add: zz_string_nth [OF lt] i_string_nth [OF lt])
  with eq show False by (simp only:) simp
qed

lemma eps_pos: "0 < eps"
  by (simp add: eps_def)

lemma diag_terms_nonempty:
  assumes "i < dim Q" and "eps < \<bar>cell Q (i, i)\<bar>"
  shows "ising_terms Q \<noteq> []"
proof -
  from assms(2) have "diag_terms_at Q i \<noteq> []" by (simp add: diag_terms_at_def)
  with assms(1) have "diag_terms Q \<noteq> []" by (auto simp: diag_terms_def)
  then show ?thesis by (simp add: ising_terms_def)
qed

section \<open>Evaluation at the concrete inputs\<close>

lemma upt_2: "[0 ..< 2] = [0, 1]" "[Suc 0 ..< 2] = [1]" "[2 ..< 2] = []"
  by (simp_all add: upt_rec)

lemma upt_3: "[0 ..< 3] = [0, 1, 2]" "[Suc 0 ..< 3] = [1, 2]" "[2 ..< 3] = [2]" "[3 ..< 3] = []"
  by (simp_all add: upt_rec)

lemma tiny_qubo_simps: "dim tiny_qubo = 1" "cell tiny_qubo (0, 0) = 3 / (2 * 10 ^ 10)"
  by (simp_all add: tiny_qubo_def matrix_of_dict_def assign_item_def set_cell_def zeros_def)

lemma tiny_conversion: "qubo_to_hamiltonian tiny_qubo = Inr tiny_hamiltonian"
proof -
  have "ising_terms tiny_qubo = [(''Z'', 3 / (4 * 10 ^ 10))]"
    by (simp add: ising_terms_def diag_terms_def diag_terms_at_def offdiag_terms_def
        constant_terms_def ising_constant_def kept_def eps_def z_string_def tiny_qubo_simps)
  then show ?thesis by (simp add: qubo_to_hamiltonian_nonempty tiny_hamiltonian_def)
qed

lemma one_qubo_simps: "dim one_qubo = 1" "cell one_qubo (0, 0) = 1"
  by (simp_all add: one_qubo_def matrix_of_dict_def assign_item_def set_cell_def zeros_def)

lemma one_conversion: "qubo_to_hamiltonian one_qubo = Inr one_hamiltonian"
proof -
  have "ising_terms one_qubo = [(''Z'', 1 / 2), (''I'', 1 / 2)]"
    by (simp add: ising_terms_def diag_terms_def diag_terms_at_def offdiag_terms_def
        constant_terms_def ising_constant_def kept_def eps_def z_string_def i_string_def
        one_qubo_simps)
  then show ?thesis by (simp add: qubo_to_hamiltonian_nonempty one_hamiltonian_def)
qed

lemma pair_qubo_simps:
  "dim pair_qubo = 2" "cell pair_qubo (0, 0) = 1" "cell pair_qubo (Suc 0, Suc 0) = 1"
  "cell pair_qubo (0, Suc 0) = 1"
  by (simp_all add: pair_qubo_def matrix_of_dict_def assign_item_def set_cell_def zeros_def)

lemma pair_ising_terms:
  "ising_terms pair_qubo
     = [(''ZI'', 1 / 2), (''IZ'', 1 / 2), (''ZZ'', 1 / 4), (''ZI'', 1 / 4), (''IZ'', 1 / 4),
        (''II'', 5 / 4)]"
  by (simp add: ising_terms_def diag_terms_def diag_terms_at_def offdiag_terms_def
      pair_terms_at_def constant_terms_def ising_constant_def kept_def eps_def z_string_def
      zz_string_def i_string_def pair_qubo_simps upt_2 numeral_2_eq_2)

lemma pair_conversion: "qubo_to_hamiltonian pair_qubo = Inr pair_hamiltonian"
  by (simp add: qubo_to_hamiltonian_nonempty pair_ising_terms pair_hamiltonian_def)

lemma scenario_qubo_simps:
  "dim scenario_qubo = 3"
  "cell scenario_qubo (0, 0) = - 1" "cell scenario_qubo (Suc 0, Suc 0) = - 1"
  "cell scenario_qubo (Suc (Suc 0), Suc (Suc 0)) = - 2" "cell scenario_qubo (0, Suc 0) = 2"
  "cell scenario_qubo (0, Suc (Suc 0)) = 1" "cell scenario_qubo (Suc 0, Suc (Suc 0)) = 0"
  by (simp_all add: scenario_qubo_def scenario_dict_def matrix_of_dict_def assign_item_def
      set_cell_def zeros_def numeral_2_eq_2)

lemma scenario_objective:
  "calculate_objective_value [a, b, c] scenario_qubo
     = Inr (- of_int a - of_int b - 2 * of_int c + 2 * of_int a * of_int b + of_int a * of_int c)"
  by (simp add: calculate_objective_value_def linear_part_def quadratic_part_def
      scenario_qubo_simps upt_3 numeral_3_eq_3)

lemma three_bits:
  assumes "length x = 3" "set x \<subseteq> {0, 1 :: int}"
  obtains a b c where "x = [a, b, c]" "a = 0 \<or> a = 1" "b = 0 \<or> b = 1" "c = 0 \<or> c = 1"
proof -
  from assms(1) obtain a b c where x: "x = [a, b, c]"
    by (auto simp: length_Suc_conv numeral_3_eq_3)
  with assms(2) have "a = 0 \<or> a = 1" "b = 0 \<or> b = 1" "c = 0 \<or> c = 1" by auto
  with x show ?thesis by (rule that)
qed

section \<open>What the comparisons with \<^verbatim>\<open>'I'\<close> and \<^verbatim>\<open>'Z'\<close> make of the loops\<close>

lemma term_contrib_coefficient: "term_contrib qs sol t = Inr t"
  by (induction qs sol t rule: term_contrib.induct) (simp_all add: pauli_eq_str_def)

lemma bitstring_energy_sum:
  "bitstring_energy ts sol e = Inr (e + sum_list (map snd ts))"
  by (induction ts sol e rule: bitstring_energy.induct)
    (simp_all add: term_contrib_coefficient add.assoc)

lemma z_rotations_empty: "z_rotations gamma pauli_str coeff = []"
  by (simp add: z_rotations_def pauli_eq_str_def split_def)

lemma cost_rotations_empty: "cost_rotations h gamma = []"
  by (auto simp: cost_rotations_def z_rotations_empty)

lemma cost_unitary_empty: "cost_unitary h gamma = []"
  by (simp add: cost_unitary_def cost_rotations_empty)

lemma cost_step_identity: "cost_step h gamma psi = psi"
  by (simp add: cost_step_def cost_rotations_empty)

lemma create_qaoa_circuit_gates:
  "create_qaoa_circuit r h gamma beta
     = map H [0 ..< num_qubits h] @ concat (replicate r (mixer_unitary h beta)) @ [MeasureAll]"
  by (simp add: create_qaoa_circuit_def cost_unitary_empty)

lemma layers_gammas_unread: "layers h gammas betas ps = layers h [] betas ps"
  by (induction ps) (simp_all add: cost_rotations_empty cost_unitary_empty split: sum.splits)

section \<open>C7: the sparsity threshold\<close>

text \<open>
  C7, as stated, fails: the threshold \<open>1e-10\<close> is applied to the matrix entry before it
  is halved, so the entry \<open>1.5e-10\<close> yields a term of coefficient \<open>0.75e-10\<close>, which is
  at most \<open>1e-10\<close> and is present in the Hamiltonian returned.
\<close>

theorem below_threshold_term_present:
  "qubo_to_hamiltonian tiny_qubo = Inr tiny_hamiltonian
   \<and> (''Z'', 3 / (4 * 10 ^ 10)) \<in> set (ham_terms tiny_hamiltonian)
   \<and> \<bar>3 / (4 * 10 ^ 10)\<bar> \<le> eps"
  by (simp add: tiny_conversion) (simp add: tiny_hamiltonian_def ham_terms_def eps_def)

text \<open>
  C7, amended: every term of the Hamiltonian returned has a coefficient of magnitude
  strictly above a quarter of the threshold (\<open>2.5e-11\<close>), and the constant term, the one
  with the all-identity label, has a coefficient of magnitude strictly above \<open>1e-10\<close>.
\<close>

theorem term_coefficient_bounds:
  assumes "qubo_to_hamiltonian Q = Inr h" and "(s, c) \<in> set (ham_terms h)"
  shows "eps / 4 < \<bar>c\<bar> \<and> (s = i_string (dim Q) \<longrightarrow> eps < \<bar>c\<bar>)"
proof -
  from assms have "(s, c) \<in> set (diag_terms Q) \<or> (s, c) \<in> set (offdiag_terms Q)
      \<or> (s, c) \<in> set (constant_terms Q)"
    by (simp add: ham_terms_conversion ising_terms_def)
  then consider
      (d) "(s, c) \<in> set (diag_terms Q)"
    | (p) "(s, c) \<in> set (offdiag_terms Q)"
    | (k) "(s, c) \<in> set (constant_terms Q)"
    by blast
  then show ?thesis
  proof cases
    case d
    from diag_terms_coeff [OF d] obtain i where i: "i < dim Q" "s = z_string (dim Q) i"
      and c: "eps / 2 < \<bar>c\<bar>" by blast
    from i have "s \<noteq> i_string (dim Q)" by (simp add: z_string_not_identity)
    moreover from c eps_pos have "eps / 4 < \<bar>c\<bar>" by simp
    ultimately show ?thesis by simp
  next
    case p
    from offdiag_terms_coeff [OF p] obtain i j where ij: "i < j" "j < dim Q"
      and c: "eps / 4 < \<bar>c\<bar>"
      and s: "s = zz_string (dim Q) i j \<or> s = z_string (dim Q) i \<or> s = z_string (dim Q) j"
      by blast
    from ij have "i < dim Q" by simp
    with ij s have "s \<noteq> i_string (dim Q)"
      using z_string_not_identity [of i "dim Q"] z_string_not_identity [of j "dim Q"]
        zz_string_not_identity [of j "dim Q" i] by (elim disjE) simp_all
    with c show ?thesis by simp
  next
    case k
    from constant_terms_coeff [OF k] eps_pos show ?thesis by simp
  qed
qed

text \<open>The amended bound at the one-variable QUBO above.\<close>

theorem term_coefficient_bounds_witness:
  "qubo_to_hamiltonian tiny_qubo = Inr tiny_hamiltonian
   \<and> (''Z'', 3 / (4 * 10 ^ 10)) \<in> set (ham_terms tiny_hamiltonian)
   \<and> eps / 4 < \<bar>3 / (4 * 10 ^ 10) :: real\<bar>"
proof -
  have mem: "(''Z'', 3 / (4 * 10 ^ 10)) \<in> set (ham_terms tiny_hamiltonian)"
    by (simp add: tiny_hamiltonian_def ham_terms_def)
  from term_coefficient_bounds [OF tiny_conversion mem] mem tiny_conversion
  show ?thesis by simp
qed

section \<open>C1: Hamiltonian energy against the QUBO objective\<close>

text \<open>
  C1 says that the energy of the Hamiltonian on an assignment \<open>x\<close>, the sum over the terms
  of the coefficient times the product of \<open>1 - 2 x_q\<close> over the qubits the term touches,
  equals the QUBO objective of \<open>x\<close>.  The builder substitutes \<open>x_i = (1 + Z_i) / 2\<close>, the
  opposite sign: for \<open>Q = [[1]]\<close> the Hamiltonian is \<open>0.5 Z + 0.5 I\<close>; at \<open>x = [1]\<close> that
  energy is \<open>0\<close> and the objective is \<open>1\<close>, at \<open>x = [0]\<close> the energy is \<open>1\<close> and the
  objective is \<open>0\<close>.  The energy the cost function itself computes is the sum of the
  coefficients, \<open>1\<close>, for either assignment.
\<close>

theorem energy_differs_from_objective:
  "qubo_to_hamiltonian one_qubo = Inr one_hamiltonian
   \<and> spec_energy one_hamiltonian [1] = Inr 0
   \<and> calculate_objective_value [1] one_qubo = Inr 1
   \<and> spec_energy one_hamiltonian [0] = Inr 1
   \<and> calculate_objective_value [0] one_qubo = Inr 0
   \<and> hamiltonian_energy one_hamiltonian [0] = Inr 1
   \<and> hamiltonian_energy one_hamiltonian [1] = Inr 1"
  by (simp add: one_conversion)
    (simp add: spec_energy_def hamiltonian_energy_def bitstring_energy_sum ham_terms_def
      one_hamiltonian_def calculate_objective_value_def linear_part_def quadratic_part_def
      one_qubo_simps)

section \<open>C5: shape of the term list\<close>

text \<open>
  C5, as stated, fails: contributions of one signature are not merged.  For the
  two-variable QUBO with both diagonal entries and the pair, \<open>ZI\<close> and \<open>IZ\<close> each occur
  twice in the Hamiltonian returned.
\<close>

theorem signature_repeated:
  "qubo_to_hamiltonian pair_qubo = Inr pair_hamiltonian
   \<and> \<not> distinct (map fst (ham_terms pair_hamiltonian))"
  by (simp add: pair_conversion) (simp add: pair_hamiltonian_def ham_terms_def)

text \<open>
  C5, amended: the term list is, in this order, one \<open>Z_i\<close> term for every retained
  diagonal entry in variable order; then, for every retained pair \<open>i < j\<close> in
  lexicographic order, the three terms \<open>Z_i Z_j\<close>, \<open>Z_i\<close>, \<open>Z_j\<close>; then the constant term,
  which is the only all-identity term.  Every contribution is a term of its own, and the
  list is a function of the matrix.  When the list is empty the constructor raises;
  otherwise the Hamiltonian is returned with exactly this list.
\<close>

theorem term_list_order:
  "qubo_to_hamiltonian Q
     = (if diag_terms Q @ offdiag_terms Q @ constant_terms Q = []
        then Inl (QiskitError ''Input Pauli list is empty.'')
        else Inr \<lparr>paulis = map fst (diag_terms Q @ offdiag_terms Q @ constant_terms Q),
                  coeffs = map snd (diag_terms Q @ offdiag_terms Q @ constant_terms Q)\<rparr>)
   \<and> (\<forall>h. qubo_to_hamiltonian Q = Inr h
          \<longrightarrow> ham_terms h = diag_terms Q @ offdiag_terms Q @ constant_terms Q)
   \<and> (\<forall>t \<in> set (diag_terms Q @ offdiag_terms Q). fst t \<noteq> i_string (dim Q))"
proof (intro conjI ballI allI impI)
  show "qubo_to_hamiltonian Q
     = (if diag_terms Q @ offdiag_terms Q @ constant_terms Q = []
        then Inl (QiskitError ''Input Pauli list is empty.'')
        else Inr \<lparr>paulis = map fst (diag_terms Q @ offdiag_terms Q @ constant_terms Q),
                  coeffs = map snd (diag_terms Q @ offdiag_terms Q @ constant_terms Q)\<rparr>)"
    using qubo_to_hamiltonian_empty [of Q] qubo_to_hamiltonian_nonempty [of Q]
    by (simp add: ising_terms_def)
next
  fix h assume "qubo_to_hamiltonian Q = Inr h"
  then show "ham_terms h = diag_terms Q @ offdiag_terms Q @ constant_terms Q"
    by (simp add: ham_terms_conversion ising_terms_def)
next
  fix t assume "t \<in> set (diag_terms Q @ offdiag_terms Q)"
  then have "(fst t, snd t) \<in> set (diag_terms Q) \<or> (fst t, snd t) \<in> set (offdiag_terms Q)"
    by simp
  then show "fst t \<noteq> i_string (dim Q)"
  proof
    assume "(fst t, snd t) \<in> set (diag_terms Q)"
    from diag_terms_coeff [OF this] obtain i where "i < dim Q" "fst t = z_string (dim Q) i"
      by blast
    then show ?thesis
      using z_string_not_identity [of i "dim Q"] by simp
  next
    assume "(fst t, snd t) \<in> set (offdiag_terms Q)"
    from offdiag_terms_coeff [OF this] obtain i j where ij: "i < j" "j < dim Q"
      and s: "fst t = zz_string (dim Q) i j \<or> fst t = z_string (dim Q) i
                \<or> fst t = z_string (dim Q) j"
      by blast
    from ij have "i < dim Q" by simp
    with ij s show ?thesis
      using z_string_not_identity [of i "dim Q"] z_string_not_identity [of j "dim Q"]
        zz_string_not_identity [of j "dim Q" i] by (elim disjE) simp_all
  qed
qed

text \<open>The amended shape at the two-variable QUBO.\<close>

theorem term_list_order_witness:
  "qubo_to_hamiltonian pair_qubo = Inr pair_hamiltonian
   \<and> ham_terms pair_hamiltonian
     = [(''ZI'', 1 / 2), (''IZ'', 1 / 2)]
       @ [(''ZZ'', 1 / 4), (''ZI'', 1 / 4), (''IZ'', 1 / 4)]
       @ [(''II'', 5 / 4)]
   \<and> diag_terms pair_qubo = [(''ZI'', 1 / 2), (''IZ'', 1 / 2)]
   \<and> ''ZI'' \<noteq> i_string (dim pair_qubo)"
  using term_list_order [of pair_qubo] pair_ising_terms
  by (simp add: pair_conversion)
    (simp add: ising_terms_def diag_terms_def diag_terms_at_def offdiag_terms_def
      pair_terms_at_def constant_terms_def ising_constant_def kept_def eps_def z_string_def
      zz_string_def i_string_def pair_qubo_simps upt_2 numeral_2_eq_2)

section \<open>C6: the three-variable scenario\<close>

text \<open>
  C6, as stated, fails: the objective of \<open>x = [0, 0, 1]\<close> is \<open>-2\<close>, not \<open>-3\<close>.
\<close>

theorem scenario_value_at_001:
  "calculate_objective_value [0, 0, 1] scenario_qubo = Inr (- 2)"
  by (simp add: scenario_objective)

text \<open>
  C6, amended: over all 3-bit assignments the exact objective is at least \<open>-3\<close>, and it
  is \<open>-3\<close> exactly at \<open>x = [0, 1, 1]\<close>; the value is computed from the matrix alone.
\<close>

theorem scenario_minimum:
  assumes "length x = 3" and "set x \<subseteq> {0, 1}"
  shows "\<exists>v. calculate_objective_value x scenario_qubo = Inr v \<and> - 3 \<le> v
            \<and> (v = - 3 \<longleftrightarrow> x = [0, 1, 1])"
proof -
  from assms obtain a b c where x: "x = [a, b, c]"
    and bits: "a = 0 \<or> a = 1" "b = 0 \<or> b = 1" "c = 0 \<or> c = 1"
    by (rule three_bits)
  from bits show ?thesis
    unfolding x scenario_objective by (elim disjE) simp_all
qed

text \<open>The minimum is attained at \<open>[0, 1, 1]\<close>.\<close>

theorem scenario_minimum_witness:
  "length [0, 1, 1 :: int] = 3 \<and> set [0, 1, 1 :: int] \<subseteq> {0, 1}
   \<and> calculate_objective_value [0, 1, 1] scenario_qubo = Inr (- 3)"
  using scenario_minimum [of "[0, 1, 1]"] by (simp add: scenario_objective)

section \<open>Solution extraction: the best bitstring\<close>

lemma max_count_split:
  "\<exists>pre post. best # xs = pre @ max_count best xs # post
     \<and> (\<forall>p \<in> set pre. snd p < snd (max_count best xs))
     \<and> (\<forall>p \<in> set post. snd p \<le> snd (max_count best xs))"
proof (induction xs arbitrary: best)
  case Nil
  show ?case by (rule exI [of _ "[]"], rule exI [of _ "[]"]) simp
next
  case (Cons x xs)
  show ?case
  proof (cases "snd best < snd x")
    case True
    from Cons.IH [of x] obtain pre post where
      eq: "x # xs = pre @ max_count x xs # post"
      and lt: "\<forall>p \<in> set pre. snd p < snd (max_count x xs)"
      and le: "\<forall>p \<in> set post. snd p \<le> snd (max_count x xs)"
      by blast
    have "x \<in> set (pre @ max_count x xs # post)" unfolding eq [symmetric] by simp
    with lt le have "snd x \<le> snd (max_count x xs)" by auto
    with True have b: "snd best < snd (max_count x xs)" by simp
    have "best # x # xs = (best # pre) @ max_count x xs # post" using eq by simp
    moreover from b lt have "\<forall>p \<in> set (best # pre). snd p < snd (max_count x xs)" by simp
    ultimately show ?thesis using le True by (metis max_count.simps(2))
  next
    case False
    from Cons.IH [of best] obtain pre post where
      eq: "best # xs = pre @ max_count best xs # post"
      and lt: "\<forall>p \<in> set pre. snd p < snd (max_count best xs)"
      and le: "\<forall>p \<in> set post. snd p \<le> snd (max_count best xs)"
      by blast
    have mc: "max_count best (x # xs) = max_count best xs" using False by simp
    show ?thesis
    proof (cases pre)
      case Nil
      note eq [unfolded Nil append_Nil]
      then have r: "max_count best xs = best" and post: "post = xs"
        by (metis list.inject)+
      have "best # x # xs = [] @ best # (x # xs)" by simp
      moreover have "\<forall>p \<in> set (x # xs). snd p \<le> snd best"
        using le False unfolding r post by auto
      ultimately show ?thesis unfolding mc r by (metis empty_iff list.set(1))
    next
      case (Cons p pre')
      note eq [unfolded Cons append_Cons]
      then have p: "p = best" and xs: "xs = pre' @ max_count best xs # post"
        by (metis list.inject)+
      from lt Cons p have bl: "snd best < snd (max_count best xs)" by simp
      with False have xl: "snd x < snd (max_count best xs)" by simp
      have "best # x # xs = (best # x # pre') @ max_count best xs # post"
        using xs by simp
      moreover have "\<forall>q \<in> set (best # x # pre'). snd q < snd (max_count best xs)"
        using lt Cons bl xl by simp
      ultimately show ?thesis unfolding mc using le by blast
    qed
  qed
qed

lemma int_of_bit_binary:
  "int_of_bit (CHR ''0'') = Inr 0" "int_of_bit (CHR ''1'') = Inr 1"
  by (simp_all add: int_of_bit_def)

lemma ints_of_bits_binary:
  "set s \<subseteq> {CHR ''0'', CHR ''1''} \<Longrightarrow> ints_of_bits s = Inr (bit_values s)"
proof (induction s)
  case Nil
  show ?case by (simp add: bit_values_def)
next
  case (Cons ch s)
  then have "ch = CHR ''0'' \<or> ch = CHR ''1''" and IH: "ints_of_bits s = Inr (bit_values s)"
    by auto
  then show ?case by (auto simp: int_of_bit_binary bit_values_def)
qed

lemma solution_of_bitstring_binary:
  "set s \<subseteq> {CHR ''0'', CHR ''1''} \<Longrightarrow> solution_of_bitstring s = Inr (bit_values (rev s))"
  by (simp add: solution_of_bitstring_def ints_of_bits_binary)

lemma tie_extract:
  "extract_solution 10 tie_histogram one_qubo
     = Inr \<lparr>solution = [1], objective_value = 1, probability = 1 / 2,
            counts = tie_histogram, success = True\<rparr>"
  by (simp add: extract_solution_def best_bitstring_def tie_histogram_def
      solution_of_bitstring_def int_of_bit_binary calculate_objective_value_def
      linear_part_def quadratic_part_def one_qubo_simps)

section \<open>C4: solution extraction\<close>

text \<open>
  C4, as stated, fails in its tie-break: \<^verbatim>\<open>max(counts, key=counts.get)\<close> keeps the
  first bitstring of maximal count in the iteration order of the histogram.  For the
  histogram \<open>{'1': 5, '0': 5}\<close> the code selects \<open>1\<close>; the lowest bitstring in
  lexicographic order is \<open>0\<close>.
\<close>

theorem tie_not_lexicographic:
  "extract_solution 10 tie_histogram one_qubo
     = Inr \<lparr>solution = [1], objective_value = 1, probability = 1 / 2,
            counts = tie_histogram, success = True\<rparr>
   \<and> spec_best_bitstring tie_histogram = Inr (''0'', 5)"
  by (simp add: tie_extract) (simp add: spec_best_bitstring_def tie_histogram_def)

text \<open>
  C4, amended: for every non-empty histogram of bitstrings over \<open>0\<close> and \<open>1\<close> that are no
  longer than the matrix, and a positive shot count, the extraction returns a result;
  the selected bitstring has the highest count, every bitstring before it in the
  iteration order of the histogram has a strictly smaller count; the reported solution is
  the reversed bitstring, the probability is the count divided by the shot count, and the
  objective value is \<^verbatim>\<open>_calculate_objective_value\<close> of the solution and the matrix.
\<close>

theorem extract_solution_correct:
  assumes "cs \<noteq> []" and "0 < n_shots"
    and "\<forall>(bitstring, cnt) \<in> set cs.
           set bitstring \<subseteq> {CHR ''0'', CHR ''1''} \<and> length bitstring \<le> dim Q"
  shows "\<exists>r pre bitstring cnt post.
           extract_solution n_shots cs Q = Inr r
           \<and> cs = pre @ (bitstring, cnt) # post
           \<and> (\<forall>p \<in> set pre. snd p < cnt) \<and> (\<forall>p \<in> set post. snd p \<le> cnt)
           \<and> solution r = bit_values (rev bitstring)
           \<and> probability r = real cnt / real n_shots
           \<and> calculate_objective_value (solution r) Q = Inr (objective_value r)
           \<and> counts r = cs \<and> success r"
proof -
  from assms(1) obtain x xs where cs: "cs = x # xs" by (cases cs) auto
  obtain bitstring cnt where m: "max_count x xs = (bitstring, cnt)" by (cases "max_count x xs")
  from max_count_split [of x xs] obtain pre post where
    eq: "cs = pre @ (bitstring, cnt) # post"
    and lt: "\<forall>p \<in> set pre. snd p < cnt" and le: "\<forall>p \<in> set post. snd p \<le> cnt"
    unfolding cs m by auto
  from eq have "(bitstring, cnt) \<in> set cs" by simp
  with assms(3) have bits: "set bitstring \<subseteq> {CHR ''0'', CHR ''1''}"
    and len: "length bitstring \<le> dim Q" by auto
  let ?sol = "bit_values (rev bitstring)"
  from len have "\<not> dim Q < length ?sol" by (simp add: bit_values_def)
  then obtain obj where obj: "calculate_objective_value ?sol Q = Inr obj"
    by (simp add: calculate_objective_value_def)
  let ?r = "\<lparr>solution = ?sol, objective_value = obj, probability = real cnt / real n_shots,
             counts = cs, success = True\<rparr>"
  have "extract_solution n_shots cs Q = Inr ?r"
    using assms(2) obj
    by (simp add: extract_solution_def best_bitstring_def cs m
        solution_of_bitstring_binary [OF bits])
  with eq lt le obj show ?thesis
    by (intro exI [of _ ?r] exI [of _ pre] exI [of _ bitstring] exI [of _ cnt] exI [of _ post])
      simp
qed

text \<open>The extraction at the histogram with a tie.\<close>

theorem extract_solution_correct_witness:
  "tie_histogram \<noteq> [] \<and> (0::nat) < 10
   \<and> extract_solution 10 tie_histogram one_qubo
       = Inr \<lparr>solution = [1], objective_value = 1, probability = 1 / 2,
              counts = tie_histogram, success = True\<rparr>"
  using extract_solution_correct [of tie_histogram 10 one_qubo]
  by (simp add: tie_extract) (simp add: tie_histogram_def)

section \<open>The pipeline: errors\<close>

lemma matrix_of_empty_program: "matrix_of_program (empty_program n) = Inr (zeros n)"
  by (simp add: matrix_of_program_def empty_program_def)

lemma matrix_of_unit_program:
  "0 < n \<Longrightarrow> matrix_of_program (unit_program n) = Inr (set_cell (zeros n) 0 0 1)"
  by (simp add: matrix_of_program_def unit_program_def assign_checked_def zeros_def)

lemma one_qubo_cell: "set_cell (zeros (Suc 0)) 0 0 1 = one_qubo"
  by (simp add: one_qubo_def matrix_of_dict_def assign_item_def)

lemma one_dict_conversion:
  "qubo_to_hamiltonian (matrix_of_dict [((0, 0), 1)] (Suc 0)) = Inr one_hamiltonian"
  using one_conversion by (simp add: one_qubo_def)

lemma unit_conversion:
  assumes "0 < n"
  shows "\<exists>h. qubo_to_hamiltonian (set_cell (zeros n) 0 0 1) = Inr h"
proof -
  let ?Q = "set_cell (zeros n) 0 0 1"
  have "0 < dim ?Q" "eps < \<bar>cell ?Q (0, 0)\<bar>"
    using assms by (simp_all add: set_cell_def zeros_def eps_def)
  then have "ising_terms ?Q \<noteq> []" by (rule diag_terms_nonempty)
  then show ?thesis by (simp add: qubo_to_hamiltonian_nonempty)
qed

lemma zero_conversion:
  "qubo_to_hamiltonian (matrix_of_dict zero_dict (Suc 0))
     = Inl (QiskitError ''Input Pauli list is empty.'')"
proof -
  have "ising_terms (matrix_of_dict zero_dict (Suc 0)) = []"
    by (simp add: ising_terms_def diag_terms_def diag_terms_at_def offdiag_terms_def
        constant_terms_def ising_constant_def kept_def eps_def zero_dict_def
        matrix_of_dict_def assign_item_def set_cell_def zeros_def)
  then show ?thesis by (rule qubo_to_hamiltonian_empty)
qed

lemma optimize_parameters_unsupported:
  assumes "optimizer_name \<noteq> ''COBYLA''" and "optimizer_name \<noteq> ''SPSA''"
  shows "optimize_parameters cfg env h r optimizer_name
           = ([], Inl (ValueError (''Unsupported optimizer: '' @ optimizer_name)))"
  using assms by (simp add: optimize_parameters_def)

lemma run_qaoa_unsupported:
  assumes "optimizer_name \<noteq> ''COBYLA''" and "optimizer_name \<noteq> ''SPSA''"
  shows "fst (run_qaoa cfg env run Q optimizer_name True) = []"
    and "\<exists>e. snd (run_qaoa cfg env run Q optimizer_name True) = Inl e"
    and "qubo_to_hamiltonian Q = Inr h \<Longrightarrow>
           run_qaoa cfg env run Q optimizer_name True
             = ([], Inl (ValueError (''Unsupported optimizer: '' @ optimizer_name)))"
  by (simp_all add: run_qaoa_def optimize_parameters_unsupported [OF assms] split: sum.splits)

lemma run_qaoa_constructor_error:
  "qubo_to_hamiltonian Q = Inl e \<Longrightarrow>
     run_qaoa cfg env run Q optimizer_name use_variational = ([], Inl e)"
  by (simp add: run_qaoa_def)

lemma run_qaoa_reraises:
  assumes "qubo_to_hamiltonian Q = Inr h"
  shows "run (create_qaoa_circuit (reps cfg) h (8 / 10) (4 / 10)) (shots cfg) = Inl e \<Longrightarrow>
           snd (run_qaoa cfg env run Q optimizer_name False) = Inl e"
    and "snd (optimize_parameters cfg env h (reps cfg) optimizer_name) = Inl e \<Longrightarrow>
           snd (run_qaoa cfg env run Q optimizer_name True) = Inl e"
    and "snd (optimize_parameters cfg env h (reps cfg) optimizer_name)
             = Inr (gammas, betas, final_cost) \<Longrightarrow>
         create_parameterized_circuit (reps cfg) h gammas betas = Inr qc \<Longrightarrow>
         run qc (shots cfg) = Inl e \<Longrightarrow>
           snd (run_qaoa cfg env run Q optimizer_name True) = Inl e"
proof -
  show "run (create_qaoa_circuit (reps cfg) h (8 / 10) (4 / 10)) (shots cfg) = Inl e \<Longrightarrow>
           snd (run_qaoa cfg env run Q optimizer_name False) = Inl e"
    using assms by (simp add: run_qaoa_def execute_def)
  show "snd (optimize_parameters cfg env h (reps cfg) optimizer_name) = Inl e \<Longrightarrow>
           snd (run_qaoa cfg env run Q optimizer_name True) = Inl e"
    using assms
    by (cases "optimize_parameters cfg env h (reps cfg) optimizer_name")
      (simp add: run_qaoa_def)
  show "snd (optimize_parameters cfg env h (reps cfg) optimizer_name)
             = Inr (gammas, betas, final_cost) \<Longrightarrow>
         create_parameterized_circuit (reps cfg) h gammas betas = Inr qc \<Longrightarrow>
         run qc (shots cfg) = Inl e \<Longrightarrow>
           snd (run_qaoa cfg env run Q optimizer_name True) = Inl e"
    using assms
    by (cases "optimize_parameters cfg env h (reps cfg) optimizer_name")
      (simp add: run_qaoa_def execute_def)
qed

lemma portfolio_falls_back:
  assumes "portfolio_quantum cfg env qp = Inl e"
  shows "portfolio_solve cfg env qp
           = (case classical_solve env qp of
                Inl e' \<Rightarrow> Inl e'
              | Inr (x, fval) \<Rightarrow> Inr (ClassicalResult x fval))"
  using assms by (simp add: portfolio_solve_def)

lemma failing_env_simps:
  "aer_run failing_env qc n = Inl (ExternalError ''simulator failure'')"
  "ansatz_run failing_env h r params n = Inl (ExternalError ''simulator failure'')"
  "classical_solve failing_env qp = Inl (ExternalError ''eigensolver failure'')"
  "minimize failing_env name f x0 = ([], Inl (ExternalError ''optimizer failure''))"
  by (simp_all add: failing_env_def)

lemma stalled_env_simps:
  "aer_run stalled_env qc n = Inl (ExternalError ''simulator failure'')"
  "minimize stalled_env name f x0 = ([], Inr ([4 / 5, 2 / 5], 0))"
  by (simp_all add: stalled_env_def)

lemma select_backend_default: "select_backend default_config env = aer_run env"
  by (simp add: select_backend_def default_config_def)

lemma n_vars_single: "n_vars_of [((0, 0), 1)] = Inr 1"
  by (simp add: n_vars_of_def all_indices_def)

lemma n_vars_zero_dict: "n_vars_of zero_dict = Inr 1"
  by (simp add: n_vars_of_def all_indices_def zero_dict_def)

lemma portfolio_quantum_failing:
  "\<exists>e. portfolio_quantum cfg failing_env qp = Inl e"
  by (simp add: portfolio_quantum_def failing_env_simps split: sum.splits)

lemma single_qubit_layer:
  assumes "num_qubits h = Suc 0"
  shows "create_parameterized_circuit (Suc 0) h [4 / 5] [2 / 5] = Inr bare_circuit"
    and "create_qaoa_circuit (Suc 0) h (4 / 5) (2 / 5) = bare_circuit"
proof -
  show "create_parameterized_circuit (Suc 0) h [4 / 5] [2 / 5] = Inr bare_circuit"
    by (simp add: create_parameterized_circuit_def assms cost_rotations_empty
        cost_unitary_empty mixer_unitary_def bare_circuit_def)
  show "create_qaoa_circuit (Suc 0) h (4 / 5) (2 / 5) = bare_circuit"
    by (simp add: create_qaoa_circuit_gates assms mixer_unitary_def bare_circuit_def)
qed

lemma one_hamiltonian_qubits: "num_qubits one_hamiltonian = Suc 0"
  by (simp add: num_qubits_def one_hamiltonian_def)

lemma default_config_simps:
  "reps default_config = Suc 0" "shots default_config = 1024"
  by (simp_all add: default_config_def)

lemma optimize_parameters_envs:
  "snd (optimize_parameters default_config failing_env h (Suc 0) ''COBYLA'')
     = Inl (ExternalError ''optimizer failure'')"
  "snd (optimize_parameters default_config stalled_env h (Suc 0) ''COBYLA'')
     = Inr ([4 / 5], [2 / 5], 0)"
  by (simp_all add: optimize_parameters_def failing_env_simps stalled_env_simps
      executed_by_search_def)

section \<open>C10: unsupported optimizer names\<close>

text \<open>
  C10, as stated, fails where an earlier stage raises: for the dict \<open>{(0,0): 0}\<close> no term
  is retained, the constructor of the Hamiltonian raises QiskitError, and parameter
  optimization is never reached.
\<close>

theorem constructor_raises_first:
  "solve_problem default_config failing_env zero_dict ''ADAM'' True
     = ([], Inl (QiskitError ''Input Pauli list is empty.''))"
  by (simp add: solve_problem_def n_vars_zero_dict run_qaoa_constructor_error zero_conversion)

text \<open>
  C10, amended: for every optimizer name other than \<open>COBYLA\<close> and \<open>SPSA\<close>, a variational
  solve executes no circuit and returns an error, never a result; whenever the
  Hamiltonian has been built, the error is the ValueError that
  \<^verbatim>\<open>_optimize_parameters\<close> raises for the unsupported name.
\<close>

theorem unsupported_optimizer_raises:
  assumes "optimizer_name \<noteq> ''COBYLA''" and "optimizer_name \<noteq> ''SPSA''"
  shows "fst (solve_problem cfg env d optimizer_name True) = []
    \<and> (\<exists>e. snd (solve_problem cfg env d optimizer_name True) = Inl e)
    \<and> (\<forall>n h. n_vars_of d = Inr n \<and> qubo_to_hamiltonian (matrix_of_dict d n) = Inr h \<longrightarrow>
         snd (solve_problem cfg env d optimizer_name True)
           = Inl (ValueError (''Unsupported optimizer: '' @ optimizer_name)))
    \<and> fst (solve cfg env qp optimizer_name True) = []
    \<and> (\<exists>e. snd (solve cfg env qp optimizer_name True) = Inl e)
    \<and> (\<forall>Q h. matrix_of_program qp = Inr Q \<and> qubo_to_hamiltonian Q = Inr h \<longrightarrow>
         snd (solve cfg env qp optimizer_name True)
           = Inl (ValueError (''Unsupported optimizer: '' @ optimizer_name)))"
proof -
  note r = run_qaoa_unsupported [OF assms]
  have "fst (solve_problem cfg env d optimizer_name True) = []"
    and "\<exists>e. snd (solve_problem cfg env d optimizer_name True) = Inl e"
    using r(1,2) by (simp_all add: solve_problem_def split: sum.splits)
  moreover have "fst (solve cfg env qp optimizer_name True) = []"
    and "\<exists>e. snd (solve cfg env qp optimizer_name True) = Inl e"
    using r(1,2) by (simp_all add: solve_def split: sum.splits)
  moreover have "\<forall>n h. n_vars_of d = Inr n
      \<and> qubo_to_hamiltonian (matrix_of_dict d n) = Inr h \<longrightarrow>
         snd (solve_problem cfg env d optimizer_name True)
           = Inl (ValueError (''Unsupported optimizer: '' @ optimizer_name))"
    using r(3) by (simp add: solve_problem_def)
  moreover have "\<forall>Q h. matrix_of_program qp = Inr Q \<and> qubo_to_hamiltonian Q = Inr h \<longrightarrow>
         snd (solve cfg env qp optimizer_name True)
           = Inl (ValueError (''Unsupported optimizer: '' @ optimizer_name))"
    using r(3) by (simp add: solve_def)
  ultimately show ?thesis by blast
qed

text \<open>The optimizer name \<open>ADAM\<close>, at the QUBO \<open>[[1]]\<close>.\<close>

theorem unsupported_optimizer_raises_witness:
  "''ADAM'' \<noteq> ''COBYLA'' \<and> ''ADAM'' \<noteq> ''SPSA''
   \<and> n_vars_of [((0, 0), 1)] = Inr 1
   \<and> qubo_to_hamiltonian (matrix_of_dict [((0, 0), 1)] 1) = Inr one_hamiltonian
   \<and> solve_problem default_config failing_env [((0, 0), 1)] ''ADAM'' True
       = ([], Inl (ValueError ''Unsupported optimizer: ADAM''))
   \<and> matrix_of_program (unit_program 1) = Inr one_qubo
   \<and> solve default_config failing_env (unit_program 1) ''ADAM'' True
       = ([], Inl (ValueError ''Unsupported optimizer: ADAM''))"
proof -
  have n: "''ADAM'' \<noteq> ''COBYLA''" "''ADAM'' \<noteq> ''SPSA''" by simp_all
  note c = one_dict_conversion
  have m: "matrix_of_program (unit_program (Suc 0)) = Inr one_qubo"
    by (simp add: matrix_of_unit_program one_qubo_cell)
  from unsupported_optimizer_raises [OF n, where cfg = default_config and env = failing_env
      and d = "[((0, 0), 1)]" and qp = "unit_program 1"] n_vars_single c m one_conversion
  show ?thesis by (simp add: prod_eq_iff)
qed

section \<open>C3: failure of the quantum pipeline\<close>

text \<open>
  C3, as stated, fails: \<^verbatim>\<open>SimpleQAOAOptimizer\<close> has no fallback solver, and the
  fallback of \<^verbatim>\<open>QAOAPortfolioOptimizer\<close> re-raises.  With a failing simulator a
  one-variable problem yields the simulator's error, not a result; with a failing
  eigensolver a 21-variable program yields the eigensolver's error, not a result with
  \<open>success = false\<close>.
\<close>

theorem no_fallback_solver:
  "snd (solve_problem default_config failing_env [((0, 0), 1)] ''COBYLA'' False)
     = Inl (ExternalError ''simulator failure'')
   \<and> portfolio_solve default_config failing_env (empty_program 21)
     = Inl (ExternalError ''eigensolver failure'')"
proof -
  note c = one_dict_conversion
  have "snd (solve_problem default_config failing_env [((0, 0), 1)] ''COBYLA'' False)
         = Inl (ExternalError ''simulator failure'')"
    by (simp add: solve_problem_def n_vars_single run_qaoa_reraises(1) [OF c]
        select_backend_default failing_env_simps)
  moreover obtain e where "portfolio_quantum default_config failing_env (empty_program 21) = Inl e"
    using portfolio_quantum_failing by blast
  then have "portfolio_solve default_config failing_env (empty_program 21)
         = Inl (ExternalError ''eigensolver failure'')"
    by (simp add: portfolio_falls_back failing_env_simps)
  ultimately show ?thesis by simp
qed

text \<open>
  C3, amended: \<^verbatim>\<open>solve_problem\<close> and \<^verbatim>\<open>solve\<close> of \<^verbatim>\<open>SimpleQAOAOptimizer\<close> return no
  result and re-raise the error, for every number of variables and in both modes, when
  the constructor of the Hamiltonian raises, when the parameter search fails, or when the
  execution of the circuit fails.  When the constructor raises or the run of the ansatz
  fails in \<^verbatim>\<open>QAOAPortfolioOptimizer.solve\<close>, the outcome is the outcome of the
  library's classical eigensolver, for every number of variables: its result as it is, or
  its error re-raised.
\<close>

theorem failure_is_reraised:
  "(n_vars_of d = Inr n \<longrightarrow>
      (qubo_to_hamiltonian (matrix_of_dict d n) = Inl e \<longrightarrow>
         snd (solve_problem cfg env d optimizer_name use_variational) = Inl e)
    \<and> (qubo_to_hamiltonian (matrix_of_dict d n) = Inr h \<longrightarrow>
        (select_backend cfg env (create_qaoa_circuit (reps cfg) h (8 / 10) (4 / 10)) (shots cfg)
             = Inl e \<longrightarrow>
           snd (solve_problem cfg env d optimizer_name False) = Inl e)
      \<and> (snd (optimize_parameters cfg env h (reps cfg) optimizer_name) = Inl e \<longrightarrow>
           snd (solve_problem cfg env d optimizer_name True) = Inl e)
      \<and> (snd (optimize_parameters cfg env h (reps cfg) optimizer_name)
             = Inr (gammas, betas, final_cost)
          \<and> create_parameterized_circuit (reps cfg) h gammas betas = Inr qc
          \<and> select_backend cfg env qc (shots cfg) = Inl e \<longrightarrow>
           snd (solve_problem cfg env d optimizer_name True) = Inl e)))
   \<and> (matrix_of_program qp = Inr Q \<longrightarrow>
      (qubo_to_hamiltonian Q = Inl e \<longrightarrow>
         snd (solve cfg env qp optimizer_name use_variational) = Inl e
         \<and> portfolio_solve cfg env qp
             = (case classical_solve env qp of
                  Inl e' \<Rightarrow> Inl e'
                | Inr (x, fval) \<Rightarrow> Inr (ClassicalResult x fval)))
    \<and> (qubo_to_hamiltonian Q = Inr h \<longrightarrow>
        (aer_run env (create_qaoa_circuit (reps cfg) h (8 / 10) (4 / 10)) (shots cfg)
             = Inl e \<longrightarrow>
           snd (solve cfg env qp optimizer_name False) = Inl e)
      \<and> (snd (optimize_parameters cfg env h (reps cfg) optimizer_name) = Inl e \<longrightarrow>
           snd (solve cfg env qp optimizer_name True) = Inl e)
      \<and> (snd (optimize_parameters cfg env h (reps cfg) optimizer_name)
             = Inr (gammas, betas, final_cost)
          \<and> create_parameterized_circuit (reps cfg) h gammas betas = Inr qc
          \<and> aer_run env qc (shots cfg) = Inl e \<longrightarrow>
           snd (solve cfg env qp optimizer_name True) = Inl e)
      \<and> (ansatz_run env h (reps cfg) (initial_params (reps cfg)) (shots cfg) = Inl e \<longrightarrow>
           portfolio_solve cfg env qp
             = (case classical_solve env qp of
                  Inl e' \<Rightarrow> Inl e'
                | Inr (x, fval) \<Rightarrow> Inr (ClassicalResult x fval)))))"
proof (intro conjI impI)
  assume "n_vars_of d = Inr n" "qubo_to_hamiltonian (matrix_of_dict d n) = Inl e"
  then show "snd (solve_problem cfg env d optimizer_name use_variational) = Inl e"
    by (simp add: solve_problem_def run_qaoa_constructor_error)
next
  assume "n_vars_of d = Inr n" and c: "qubo_to_hamiltonian (matrix_of_dict d n) = Inr h"
    and "select_backend cfg env (create_qaoa_circuit (reps cfg) h (8 / 10) (4 / 10)) (shots cfg)
           = Inl e"
  then show "snd (solve_problem cfg env d optimizer_name False) = Inl e"
    by (simp add: solve_problem_def run_qaoa_reraises(1) [OF c])
next
  assume "n_vars_of d = Inr n" and c: "qubo_to_hamiltonian (matrix_of_dict d n) = Inr h"
    and "snd (optimize_parameters cfg env h (reps cfg) optimizer_name) = Inl e"
  then show "snd (solve_problem cfg env d optimizer_name True) = Inl e"
    by (simp add: solve_problem_def run_qaoa_reraises(2) [OF c])
next
  assume "n_vars_of d = Inr n" and c: "qubo_to_hamiltonian (matrix_of_dict d n) = Inr h"
    and "snd (optimize_parameters cfg env h (reps cfg) optimizer_name)
             = Inr (gammas, betas, final_cost)
          \<and> create_parameterized_circuit (reps cfg) h gammas betas = Inr qc
          \<and> select_backend cfg env qc (shots cfg) = Inl e"
  then show "snd (solve_problem cfg env d optimizer_name True) = Inl e"
    by (simp add: solve_problem_def run_qaoa_reraises(3) [OF c])
next
  assume "matrix_of_program qp = Inr Q" "qubo_to_hamiltonian Q = Inl e"
  then show "snd (solve cfg env qp optimizer_name use_variational) = Inl e"
    by (simp add: solve_def run_qaoa_constructor_error)
next
  assume "matrix_of_program qp = Inr Q" "qubo_to_hamiltonian Q = Inl e"
  then have "portfolio_quantum cfg env qp = Inl e" by (simp add: portfolio_quantum_def)
  then show "portfolio_solve cfg env qp
             = (case classical_solve env qp of
                  Inl e' \<Rightarrow> Inl e'
                | Inr (x, fval) \<Rightarrow> Inr (ClassicalResult x fval))"
    by (rule portfolio_falls_back)
next
  assume "matrix_of_program qp = Inr Q" and c: "qubo_to_hamiltonian Q = Inr h"
    and "aer_run env (create_qaoa_circuit (reps cfg) h (8 / 10) (4 / 10)) (shots cfg) = Inl e"
  then show "snd (solve cfg env qp optimizer_name False) = Inl e"
    by (simp add: solve_def run_qaoa_reraises(1) [OF c])
next
  assume "matrix_of_program qp = Inr Q" and c: "qubo_to_hamiltonian Q = Inr h"
    and "snd (optimize_parameters cfg env h (reps cfg) optimizer_name) = Inl e"
  then show "snd (solve cfg env qp optimizer_name True) = Inl e"
    by (simp add: solve_def run_qaoa_reraises(2) [OF c])
next
  assume "matrix_of_program qp = Inr Q" and c: "qubo_to_hamiltonian Q = Inr h"
    and "snd (optimize_parameters cfg env h (reps cfg) optimizer_name)
             = Inr (gammas, betas, final_cost)
          \<and> create_parameterized_circuit (reps cfg) h gammas betas = Inr qc
          \<and> aer_run env qc (shots cfg) = Inl e"
  then show "snd (solve cfg env qp optimizer_name True) = Inl e"
    by (simp add: solve_def run_qaoa_reraises(3) [OF c])
next
  assume "matrix_of_program qp = Inr Q" "qubo_to_hamiltonian Q = Inr h"
    and "ansatz_run env h (reps cfg) (initial_params (reps cfg)) (shots cfg) = Inl e"
  then have "portfolio_quantum cfg env qp = Inl e" by (simp add: portfolio_quantum_def)
  then show "portfolio_solve cfg env qp
             = (case classical_solve env qp of
                  Inl e' \<Rightarrow> Inl e'
                | Inr (x, fval) \<Rightarrow> Inr (ClassicalResult x fval))"
    by (rule portfolio_falls_back)
qed

text \<open>
  The QUBO \<open>[[1]]\<close> with a failing simulator, with a failing optimizer, and with an
  optimizer that returns while the simulator fails; the dict \<open>{(0,0): 0}\<close>; the program
  \<open>x0\<close> of one variable and of 21.
\<close>

theorem failure_is_reraised_witness:
  "n_vars_of [((0, 0), 1)] = Inr 1
   \<and> qubo_to_hamiltonian (matrix_of_dict [((0, 0), 1)] 1) = Inr one_hamiltonian
   \<and> snd (solve_problem default_config failing_env [((0, 0), 1)] ''COBYLA'' False)
       = Inl (ExternalError ''simulator failure'')
   \<and> snd (optimize_parameters default_config failing_env one_hamiltonian 1 ''COBYLA'')
       = Inl (ExternalError ''optimizer failure'')
   \<and> snd (solve_problem default_config failing_env [((0, 0), 1)] ''COBYLA'' True)
       = Inl (ExternalError ''optimizer failure'')
   \<and> snd (optimize_parameters default_config stalled_env one_hamiltonian 1 ''COBYLA'')
       = Inr ([4 / 5], [2 / 5], 0)
   \<and> create_parameterized_circuit 1 one_hamiltonian [4 / 5] [2 / 5] = Inr bare_circuit
   \<and> snd (solve_problem default_config stalled_env [((0, 0), 1)] ''COBYLA'' True)
       = Inl (ExternalError ''simulator failure'')
   \<and> n_vars_of zero_dict = Inr 1
   \<and> qubo_to_hamiltonian (matrix_of_dict zero_dict 1)
       = Inl (QiskitError ''Input Pauli list is empty.'')
   \<and> snd (solve_problem default_config failing_env zero_dict ''COBYLA'' True)
       = Inl (QiskitError ''Input Pauli list is empty.'')
   \<and> matrix_of_program (unit_program 1) = Inr one_qubo
   \<and> snd (solve default_config failing_env (unit_program 1) ''COBYLA'' False)
       = Inl (ExternalError ''simulator failure'')
   \<and> snd (solve default_config failing_env (unit_program 1) ''COBYLA'' True)
       = Inl (ExternalError ''optimizer failure'')
   \<and> snd (solve default_config stalled_env (unit_program 1) ''COBYLA'' True)
       = Inl (ExternalError ''simulator failure'')
   \<and> matrix_of_program (unit_program 21) = Inr (set_cell (zeros 21) 0 0 1)
   \<and> (\<exists>h. qubo_to_hamiltonian (set_cell (zeros 21) 0 0 1) = Inr h)
   \<and> portfolio_solve default_config failing_env (unit_program 21)
       = Inl (ExternalError ''eigensolver failure'')"
proof -
  note facts = n_vars_single one_dict_conversion one_conversion n_vars_zero_dict
    zero_conversion select_backend_default failing_env_simps stalled_env_simps
    default_config_simps optimize_parameters_envs
    single_qubit_layer [OF one_hamiltonian_qubits]
  have m1: "matrix_of_program (unit_program (Suc 0)) = Inr one_qubo"
    by (simp add: matrix_of_unit_program one_qubo_cell)
  have m21: "matrix_of_program (unit_program 21) = Inr (set_cell (zeros 21) 0 0 1)"
    by (simp add: matrix_of_unit_program)
  obtain h21 where h21: "qubo_to_hamiltonian (set_cell (zeros 21) 0 0 1) = Inr h21"
    using unit_conversion [of 21] by auto
  have sim: "snd (solve_problem default_config failing_env [((0, 0), 1)] ''COBYLA'' False)
               = Inl (ExternalError ''simulator failure'')
      \<and> snd (solve default_config failing_env (unit_program 1) ''COBYLA'' False)
               = Inl (ExternalError ''simulator failure'')"
    using failure_is_reraised [where d = "[((0, 0), 1)]" and n = 1 and cfg = default_config
        and env = failing_env and optimizer_name = "''COBYLA''" and h = one_hamiltonian
        and e = "ExternalError ''simulator failure''" and qp = "unit_program 1"
        and Q = one_qubo]
    by (simp add: facts m1)
  have opt: "snd (solve_problem default_config failing_env [((0, 0), 1)] ''COBYLA'' True)
               = Inl (ExternalError ''optimizer failure'')
      \<and> snd (solve default_config failing_env (unit_program 1) ''COBYLA'' True)
               = Inl (ExternalError ''optimizer failure'')"
    using failure_is_reraised [where d = "[((0, 0), 1)]" and n = 1 and cfg = default_config
        and env = failing_env and optimizer_name = "''COBYLA''" and h = one_hamiltonian
        and e = "ExternalError ''optimizer failure''" and qp = "unit_program 1"
        and Q = one_qubo]
    by (simp add: facts m1)
  have stalled: "snd (solve_problem default_config stalled_env [((0, 0), 1)] ''COBYLA'' True)
               = Inl (ExternalError ''simulator failure'')
      \<and> snd (solve default_config stalled_env (unit_program 1) ''COBYLA'' True)
               = Inl (ExternalError ''simulator failure'')"
    using failure_is_reraised [where d = "[((0, 0), 1)]" and n = 1 and cfg = default_config
        and env = stalled_env and optimizer_name = "''COBYLA''" and h = one_hamiltonian
        and e = "ExternalError ''simulator failure''" and qp = "unit_program 1"
        and Q = one_qubo and gammas = "[4 / 5]" and betas = "[2 / 5]" and final_cost = 0
        and qc = bare_circuit]
    by (simp add: facts m1)
  have zero: "snd (solve_problem default_config failing_env zero_dict ''COBYLA'' True)
               = Inl (QiskitError ''Input Pauli list is empty.'')"
    using failure_is_reraised [where d = zero_dict and n = 1 and cfg = default_config
        and env = failing_env and optimizer_name = "''COBYLA''" and use_variational = True
        and e = "QiskitError ''Input Pauli list is empty.''"]
    by (simp add: facts)
  have big: "portfolio_solve default_config failing_env (unit_program 21)
               = Inl (ExternalError ''eigensolver failure'')"
    using failure_is_reraised [where cfg = default_config and env = failing_env
        and qp = "unit_program 21" and Q = "set_cell (zeros 21) 0 0 1" and h = h21
        and e = "ExternalError ''simulator failure''"]
    by (simp add: facts m21 h21)
  from sim opt stalled zero big m21 h21 show ?thesis
    by (simp add: facts m1)
qed

section \<open>Building the matrix from a dict\<close>

lemma matrix_eqI: "dim M = dim M' \<Longrightarrow> cell M = cell M' \<Longrightarrow> M = (M' :: matrix)"
  by simp

lemma assign_item_dim: "dim (assign_item item M) = dim M"
  by (cases item) (auto simp: assign_item_def set_cell_def Let_def)

lemma assign_item_cell:
  "cell (assign_item ((a, b), v) M) k = (if k = (a, b) \<or> k = (b, a) then v else cell M k)"
  by (auto simp: assign_item_def set_cell_def Let_def)

lemma assign_item_agree:
  assumes "dim M = dim M'" and "\<forall>k. k \<noteq> (i, j) \<and> k \<noteq> (j, i) \<longrightarrow> cell M k = cell M' k"
  shows "dim (assign_item ((a, b), v) M) = dim (assign_item ((a, b), v) M')"
    and "\<forall>k. k \<noteq> (i, j) \<and> k \<noteq> (j, i)
           \<longrightarrow> cell (assign_item ((a, b), v) M) k = cell (assign_item ((a, b), v) M') k"
  using assms by (simp_all add: assign_item_dim assign_item_cell)

lemma assign_item_pair_equal:
  assumes "dim M = dim M'" and "\<forall>k. k \<noteq> (i, j) \<and> k \<noteq> (j, i) \<longrightarrow> cell M k = cell M' k"
    and "(a, b) = (i, j) \<or> (a, b) = (j, i)"
  shows "assign_item ((a, b), v) M = assign_item ((a, b), v) M'"
proof (rule matrix_eqI)
  show "dim (assign_item ((a, b), v) M) = dim (assign_item ((a, b), v) M')"
    using assms(1) by (simp add: assign_item_dim)
  show "cell (assign_item ((a, b), v) M) = cell (assign_item ((a, b), v) M')"
  proof
    fix k
    from assms(2) have "k \<noteq> (i, j) \<and> k \<noteq> (j, i) \<longrightarrow> cell M k = cell M' k"
      by (rule spec)
    with assms(3)
    show "cell (assign_item ((a, b), v) M) k = cell (assign_item ((a, b), v) M') k"
      by (auto simp: assign_item_cell)
  qed
qed

text \<open>A later write to the pair makes the earlier content of its two cells irrelevant.\<close>

lemma fold_assign_overwrites:
  assumes "\<exists>v. ((i, j), v) \<in> set d \<or> ((j, i), v) \<in> set d"
    and "dim M = dim M'" and "\<forall>k. k \<noteq> (i, j) \<and> k \<noteq> (j, i) \<longrightarrow> cell M k = cell M' k"
  shows "fold assign_item d M = fold assign_item d M'"
  using assms
proof (induction d arbitrary: M M')
  case Nil
  then show ?case by simp
next
  case (Cons item d)
  obtain a b v where item: "item = ((a, b), v)" by (cases item) auto
  show ?case
  proof (cases "(a, b) = (i, j) \<or> (a, b) = (j, i)")
    case True
    from assign_item_pair_equal [OF Cons.prems(2,3) True]
    show ?thesis by (simp add: item)
  next
    case False
    with Cons.prems(1) have later: "\<exists>v. ((i, j), v) \<in> set d \<or> ((j, i), v) \<in> set d"
      by (auto simp: item)
    from Cons.IH [OF later assign_item_agree [OF Cons.prems(2,3)]]
    show ?thesis by (simp add: item)
  qed
qed

text \<open>Writing the value the two cells already hold changes nothing.\<close>

lemma assign_item_idle:
  assumes "cell M (a, b) = v" and "cell M (b, a) = v"
  shows "assign_item ((a, b), v) M = M"
proof (rule matrix_eqI)
  show "dim (assign_item ((a, b), v) M) = dim M" by (simp add: assign_item_dim)
  show "cell (assign_item ((a, b), v) M) = cell M"
  proof
    fix k show "cell (assign_item ((a, b), v) M) k = cell M k"
      using assms by (auto simp: assign_item_cell)
  qed
qed

lemma fold_assign_settled:
  assumes "cell M (i, j) = c" and "cell M (j, i) = c"
    and "\<forall>v. ((i, j), v) \<in> set d \<or> ((j, i), v) \<in> set d \<longrightarrow> v = c"
  shows "fold assign_item (without_key (j, i) d) M = fold assign_item d M"
  using assms
proof (induction d arbitrary: M)
  case Nil
  then show ?case by (simp add: without_key_def)
next
  case (Cons item d)
  obtain a b v where item: "item = ((a, b), v)" by (cases item) auto
  from Cons.prems(3) have tail: "\<forall>v. ((i, j), v) \<in> set d \<or> ((j, i), v) \<in> set d \<longrightarrow> v = c"
    by simp
  show ?case
  proof (cases "(a, b) = (i, j) \<or> (a, b) = (j, i)")
    case True
    with Cons.prems(3) have v: "v = c" by (auto simp: item)
    from True Cons.prems(1,2) have idle: "assign_item ((a, b), v) M = M"
      unfolding v by (auto intro: assign_item_idle)
    from Cons.IH [OF Cons.prems(1,2) tail] idle
    show ?thesis by (simp add: item without_key_def)
  next
    case False
    then have keep: "(a, b) \<noteq> (j, i)" by simp
    from False Cons.prems(1,2)
    have "cell (assign_item ((a, b), v) M) (i, j) = c"
      and "cell (assign_item ((a, b), v) M) (j, i) = c"
      by (auto simp: assign_item_cell)
    from Cons.IH [OF this tail] keep
    show ?thesis by (simp add: item without_key_def)
  qed
qed

lemma fold_assign_mirrored:
  assumes "distinct (map fst d)" and "((i, j), c) \<in> set d" and "((j, i), c) \<in> set d"
    and "i \<noteq> j"
  shows "fold assign_item (without_key (j, i) d) M = fold assign_item d M"
  using assms
proof (induction d arbitrary: M)
  case Nil
  then show ?case by simp
next
  case (Cons item d)
  obtain a b v where item: "item = ((a, b), v)" by (cases item) auto
  from Cons.prems(1) have fresh: "(a, b) \<notin> fst ` set d" and dist: "distinct (map fst d)"
    by (simp_all add: item)
  consider (mirror) "(a, b) = (j, i)" | (first) "(a, b) = (i, j)"
    | (other) "(a, b) \<noteq> (i, j)" "(a, b) \<noteq> (j, i)" by blast
  then show ?case
  proof cases
    case mirror
    from fresh mirror have "\<forall>item \<in> set d. fst item \<noteq> (j, i)"
      by (metis image_eqI)
    then have "without_key (j, i) d = d"
      by (simp add: without_key_def filter_id_conv)
    moreover from Cons.prems(2,4) mirror have "((i, j), c) \<in> set d" by (auto simp: item)
    then have "fold assign_item d (assign_item ((a, b), v) M) = fold assign_item d M"
      by (intro fold_assign_overwrites) (auto simp: assign_item_dim assign_item_cell mirror)
    ultimately show ?thesis by (simp add: item without_key_def mirror)
  next
    case first
    from Cons.prems(2) fresh first have v: "v = c"
      by (auto simp: item image_iff)
    let ?M = "assign_item ((a, b), v) M"
    have cells: "cell ?M (i, j) = c" "cell ?M (j, i) = c"
      by (simp_all add: assign_item_cell first v)
    have "\<forall>w. ((i, j), w) \<in> set d \<or> ((j, i), w) \<in> set d \<longrightarrow> w = c"
    proof (intro allI impI)
      fix w assume "((i, j), w) \<in> set d \<or> ((j, i), w) \<in> set d"
      then show "w = c"
      proof
        assume "((i, j), w) \<in> set d"
        then have "(i, j) \<in> fst ` set d" by (metis fst_conv image_eqI)
        with fresh first show ?thesis by simp
      next
        assume w: "((j, i), w) \<in> set d"
        from Cons.prems(3,4) first have "((j, i), c) \<in> set d" by (auto simp: item)
        with w dist show ?thesis by (metis eq_key_imp_eq_value)
      qed
    qed
    from fold_assign_settled [OF cells this] Cons.prems(4) first
    show ?thesis by (simp add: item without_key_def)
  next
    case other
    with Cons.prems(2,3) have "((i, j), c) \<in> set d" "((j, i), c) \<in> set d"
      by (auto simp: item)
    from Cons.IH [OF dist this Cons.prems(4)] other
    show ?thesis by (simp add: item without_key_def)
  qed
qed

lemma all_indices_without_mirror:
  assumes "((i, j), c) \<in> set d" and "i \<noteq> j"
  shows "all_indices (without_key (j, i) d) = all_indices d"
proof
  show "all_indices (without_key (j, i) d) \<subseteq> all_indices d"
    by (auto simp: all_indices_def without_key_def)
  from assms have kept: "((i, j), c) \<in> set (without_key (j, i) d)"
    by (simp add: without_key_def)
  show "all_indices d \<subseteq> all_indices (without_key (j, i) d)"
  proof
    fix x assume "x \<in> all_indices d"
    then obtain a b v where item: "((a, b), v) \<in> set d" and x: "x = a \<or> x = b"
      by (auto simp: all_indices_def)
    show "x \<in> all_indices (without_key (j, i) d)"
    proof (cases "(a, b) = (j, i)")
      case True
      with x have "x = i \<or> x = j" by auto
      with kept show ?thesis by (force simp: all_indices_def)
    next
      case False
      with item have "((a, b), v) \<in> set (without_key (j, i) d)"
        by (simp add: without_key_def)
      with x show ?thesis by (force simp: all_indices_def)
    qed
  qed
qed

lemma mirrored_without:
  "without_key (Suc 0, 0) mirrored_dict = [((0, 0), 1), ((0, Suc 0), 2)]"
  by (simp add: without_key_def mirrored_dict_def)

section \<open>C9: a pair given together with its mirror image\<close>

text \<open>
  C9: a dict (distinct keys) that holds both \<open>(i, j)\<close> and \<open>(j, i)\<close>, \<open>i \<noteq> j\<close>, with the
  same coefficient yields the same number of variables, the same matrix, the same
  Hamiltonian and the same outcome of \<^verbatim>\<open>solve_problem\<close> as the dict without the key
  \<open>(j, i)\<close>: cells are assigned, not accumulated.
\<close>

theorem mirrored_pair_insensitive:
  assumes "distinct (map fst d)" and "((i, j), c) \<in> set d" and "((j, i), c) \<in> set d"
    and "i \<noteq> j"
  shows "n_vars_of (without_key (j, i) d) = n_vars_of d
    \<and> (\<forall>n. matrix_of_dict (without_key (j, i) d) n = matrix_of_dict d n)
    \<and> (\<forall>n. qubo_to_hamiltonian (matrix_of_dict (without_key (j, i) d) n)
            = qubo_to_hamiltonian (matrix_of_dict d n))
    \<and> solve_problem cfg env (without_key (j, i) d) optimizer_name use_variational
        = solve_problem cfg env d optimizer_name use_variational"
proof -
  from assms(2,4) have "((i, j), c) \<in> set (without_key (j, i) d)"
    by (simp add: without_key_def)
  then have ne: "without_key (j, i) d \<noteq> []" by auto
  from assms(2) have ne': "d \<noteq> []" by auto
  from ne ne' have n: "n_vars_of (without_key (j, i) d) = n_vars_of d"
    by (simp add: n_vars_of_def all_indices_without_mirror [OF assms(2,4)])
  have m: "matrix_of_dict (without_key (j, i) d) n = matrix_of_dict d n" for n
    unfolding matrix_of_dict_def by (rule fold_assign_mirrored [OF assms])
  from n m show ?thesis by (simp add: solve_problem_def split: sum.splits)
qed

text \<open>The dict \<open>{(0,0): 1, (0,1): 2, (1,0): 2}\<close>.\<close>

theorem mirrored_pair_insensitive_witness:
  "distinct (map fst mirrored_dict)
   \<and> ((0, 1), 2) \<in> set mirrored_dict \<and> ((1, 0), 2) \<in> set mirrored_dict
   \<and> n_vars_of [((0, 0), 1), ((0, 1), 2)] = n_vars_of mirrored_dict
   \<and> matrix_of_dict [((0, 0), 1), ((0, 1), 2)] 2 = matrix_of_dict mirrored_dict 2
   \<and> solve_problem default_config failing_env [((0, 0), 1), ((0, 1), 2)] ''COBYLA'' False
       = solve_problem default_config failing_env mirrored_dict ''COBYLA'' False"
proof -
  have h: "distinct (map fst mirrored_dict)" "((0, 1), 2) \<in> set mirrored_dict"
    "((1, 0), 2) \<in> set mirrored_dict" "(0::nat) \<noteq> 1"
    by (simp_all add: mirrored_dict_def)
  from mirrored_pair_insensitive [OF h, where cfg = default_config and env = failing_env
      and optimizer_name = "''COBYLA''" and use_variational = False] h
  show ?thesis by (simp add: mirrored_without)
qed

section \<open>C2: the cost step\<close>

lemma z_qubo_simps: "dim z_qubo = 1" "cell z_qubo (0, 0) = 2"
  by (simp_all add: z_qubo_def matrix_of_dict_def assign_item_def set_cell_def zeros_def)

lemma z_conversion: "qubo_to_hamiltonian z_qubo = Inr z_hamiltonian"
proof -
  have "ising_terms z_qubo = [(''Z'', 1), (''I'', 1)]"
    by (simp add: ising_terms_def diag_terms_def diag_terms_at_def offdiag_terms_def
        constant_terms_def ising_constant_def kept_def eps_def z_string_def i_string_def
        z_qubo_simps)
  then show ?thesis by (simp add: qubo_to_hamiltonian_nonempty z_hamiltonian_def)
qed

lemma z_hamiltonian_qubits: "num_qubits z_hamiltonian = Suc 0"
  by (simp add: num_qubits_def z_hamiltonian_def)

lemma z_spec:
  "spec_cost_step z_hamiltonian (4 / 5) psi [False] = cis (- (8 / 5)) * psi [False]"
  by (simp add: spec_cost_step_def z_hamiltonian_def ham_terms_def term_eigenvalue_def
      z_eigenvalue_def)

lemma cis_neq:
  assumes "0 < a - b" and "a - b \<le> pi"
  shows "cis a \<noteq> cis b"
proof
  assume "cis a = cis b"
  then have "cis a / cis b = 1" by simp
  then have "cis (a - b) = 1" by (simp add: cis_divide)
  then have "cos (a - b) = 1" by (simp add: complex_eq_iff)
  moreover from assms have "cos (a - b) < cos 0"
    by (intro cos_monotone_0_pi) simp_all
  ultimately show False by simp
qed

lemma uniform_state_nonzero: "uniform_state n b \<noteq> 0"
  by (simp add: uniform_state_def)

text \<open>
  C2 says that the cost step of a layer multiplies the amplitude of every bitstring, for
  every non-identity term, by \<open>exp(-i 2 gamma coefficient eigenvalue)\<close>.  The loop that
  is to emit the rotations compares Pauli objects with the strings \<^verbatim>\<open>'I'\<close> and
  \<^verbatim>\<open>'Z'\<close>, which never succeeds: no rz gate is emitted.  For \<open>Q = [[2]]\<close>, whose
  Hamiltonian is \<open>Z + I\<close>, the circuit at the fixed parameters, and at the same
  parameters given as arrays, is \<open>h(0), rx(0.8, 0), measure\<close>; the cost step leaves the
  amplitude of the basis state \<open>0\<close> unchanged, where the claim multiplies it by
  \<open>exp(-1.6 i)\<close>.
\<close>

theorem cost_layer_emits_no_rotation:
  "qubo_to_hamiltonian z_qubo = Inr z_hamiltonian
   \<and> cost_unitary z_hamiltonian (4 / 5) = []
   \<and> create_qaoa_circuit 1 z_hamiltonian (4 / 5) (2 / 5) = [H 0, RX (4 / 5) 0, MeasureAll]
   \<and> create_parameterized_circuit 1 z_hamiltonian [4 / 5] [2 / 5]
       = Inr [H 0, RX (4 / 5) 0, MeasureAll]
   \<and> cost_step z_hamiltonian (4 / 5) (uniform_state 1) [False] = uniform_state 1 [False]
   \<and> spec_cost_step z_hamiltonian (4 / 5) (uniform_state 1) [False]
       = cis (- (8 / 5)) * uniform_state 1 [False]
   \<and> cost_step z_hamiltonian (4 / 5) (uniform_state 1) [False]
       \<noteq> spec_cost_step z_hamiltonian (4 / 5) (uniform_state 1) [False]"
proof -
  have "2 \<le> pi" by (rule pi_ge_two)
  then have "cis 0 \<noteq> cis (- (8 / 5))" by (intro cis_neq) simp_all
  then have "cis (- (8 / 5)) \<noteq> 1" by simp
  then have "uniform_state 1 [False] \<noteq> cis (- (8 / 5)) * uniform_state 1 [False]"
    by (simp add: uniform_state_nonzero)
  then show ?thesis
    using single_qubit_layer [OF z_hamiltonian_qubits]
    by (simp add: z_conversion cost_unitary_empty cost_step_identity z_spec bare_circuit_def)
qed

end
